theory Spec2Isabelle
  imports Complex_Main "HOL-Library.Char_ord" "HOL-Library.List_Lexorder" "HOL-Library.Multiset"
begin

section \<open>Canonical messages and shared JavaScript helpers\<close>

text \<open>
  A canonical message \<open>{timestamp, sender, text}\<close>. The timestamp is the value of
  \<open>new Date(m.timestamp).getTime()\<close>: milliseconds since the epoch, an integer.
  Analyzers assume clean input (valid dates), so the timestamp is an \<open>int\<close>.
  JavaScript numbers that the analyzers compute from these integers are modelled as exact
  rationals (\<open>rat\<close>); \<open>NaN\<close> is made explicit where a division can produce it.
\<close>

record message =
  timestamp :: int
  sender :: string
  msgText :: string

text \<open>\<open>[...new Set(xs)]\<close>: the distinct elements in order of first insertion.\<close>

definition setAdd :: "'a list \<Rightarrow> 'a \<Rightarrow> 'a list" where
  "setAdd acc x = (if x \<in> set acc then acc else acc @ [x])"

definition newSet :: "'a list \<Rightarrow> 'a list" where
  "newSet xs = foldl setAdd [] xs"

text \<open>\<open>[...new Set(messages.map(m => m.sender))].sort()\<close>: the default sort compares
  strings by code unit, which is the lexicographic order on \<open>char list\<close>.\<close>

definition sortedSenders :: "message list \<Rightarrow> string list" where
  "sortedSenders messages = sort (newSet (map sender messages))"

text \<open>\<open>Math.round\<close>: the nearest integer, a tie going up.\<close>

definition mathRound :: "'a::floor_ceiling \<Rightarrow> int" where
  "mathRound x = \<lfloor>x + 1 / 2\<rfloor>"

text \<open>\<open>Math.round(x * 10) / 10\<close>.\<close>

definition round1 :: "rat \<Rightarrow> rat" where
  "round1 x = of_int (mathRound (x * 10)) / 10"

text \<open>\<open>xs.reduce((sum, x) => sum + f(x), 0)\<close>.\<close>

definition sumBy :: "('a \<Rightarrow> rat) \<Rightarrow> 'a list \<Rightarrow> rat" where
  "sumBy f xs = foldl (\<lambda>s x. s + f x) 0 xs"

text \<open>\<open>xs.slice(start, end)\<close> for \<open>0 \<le> start\<close>, \<open>0 \<le> end\<close>.\<close>

definition slice :: "'a list \<Rightarrow> nat \<Rightarrow> nat \<Rightarrow> 'a list" where
  "slice xs start end = take (end - start) (drop start xs)"

text \<open>Decimal rendering of a natural number, as a template literal does.\<close>

function showNat :: "nat \<Rightarrow> string" where
  "showNat n = (if n < 10 then [''0123456789'' ! n]
                else showNat (n div 10) @ [''0123456789'' ! (n mod 10)])"
  by pat_completeness auto
termination
  by (relation "measure id") auto

declare showNat.simps [simp del]

section \<open>JavaScript numbers that may fail to be finite\<close>

text \<open>
  A JavaScript number is a finite value, \<open>NaN\<close> or an infinity. Finite values are exact
  (rounding of doubles is not modelled) and zero is unsigned. The operations below follow
  the IEEE rules for the special values: \<open>0 / 0\<close> is \<open>NaN\<close>, \<open>x / 0\<close> is an infinity of
  the sign of \<open>x\<close>, every comparison with \<open>NaN\<close> is false.
\<close>

datatype 'a jsnum = Num 'a | NaN | PosInfinity | NegInfinity

definition isFiniteNum :: "'a jsnum \<Rightarrow> bool" where
  "isFiniteNum x = (case x of Num _ \<Rightarrow> True | _ \<Rightarrow> False)"

text \<open>\<open>a / b\<close> on finite operands.\<close>

definition jsDiv :: "'a::linordered_field \<Rightarrow> 'a \<Rightarrow> 'a jsnum" where
  "jsDiv a b = (if b = 0 then (if a = 0 then NaN else if a > 0 then PosInfinity else NegInfinity)
                else Num (a / b))"

text \<open>\<open>x * k\<close>, \<open>x / k\<close> and \<open>x - k\<close>, \<open>k - x\<close> for a finite constant \<open>k\<close>.\<close>

definition jsTimes :: "'a::linordered_field jsnum \<Rightarrow> 'a \<Rightarrow> 'a jsnum" where
  "jsTimes x k = (case x of Num a \<Rightarrow> Num (a * k)
                  | NaN \<Rightarrow> NaN
                  | PosInfinity \<Rightarrow> (if k > 0 then PosInfinity else if k < 0 then NegInfinity else NaN)
                  | NegInfinity \<Rightarrow> (if k > 0 then NegInfinity else if k < 0 then PosInfinity else NaN))"

definition jsOver :: "'a::linordered_field jsnum \<Rightarrow> 'a \<Rightarrow> 'a jsnum" where
  "jsOver x k = (case x of Num a \<Rightarrow> jsDiv a k
                 | NaN \<Rightarrow> NaN
                 | PosInfinity \<Rightarrow> (if k \<ge> 0 then PosInfinity else NegInfinity)
                 | NegInfinity \<Rightarrow> (if k \<ge> 0 then NegInfinity else PosInfinity))"

definition jsMinus :: "'a::linordered_field jsnum \<Rightarrow> 'a \<Rightarrow> 'a jsnum" where
  "jsMinus x k = (case x of Num a \<Rightarrow> Num (a - k) | other \<Rightarrow> other)"

definition jsFrom :: "'a::linordered_field \<Rightarrow> 'a jsnum \<Rightarrow> 'a jsnum" where
  "jsFrom k x = (case x of Num a \<Rightarrow> Num (k - a)
                 | NaN \<Rightarrow> NaN
                 | PosInfinity \<Rightarrow> NegInfinity
                 | NegInfinity \<Rightarrow> PosInfinity)"

text \<open>\<open>x <= n\<close>, \<open>x < n\<close> and \<open>x > n\<close> for a finite \<open>n\<close>.\<close>

definition jsLe :: "'a::linordered_field jsnum \<Rightarrow> 'a \<Rightarrow> bool" where
  "jsLe x n = (case x of Num a \<Rightarrow> a \<le> n | NegInfinity \<Rightarrow> True | _ \<Rightarrow> False)"

definition jsLt :: "'a::linordered_field jsnum \<Rightarrow> 'a \<Rightarrow> bool" where
  "jsLt x n = (case x of Num a \<Rightarrow> a < n | NegInfinity \<Rightarrow> True | _ \<Rightarrow> False)"

definition jsGt :: "'a::linordered_field jsnum \<Rightarrow> 'a \<Rightarrow> bool" where
  "jsGt x n = (case x of Num a \<Rightarrow> a > n | PosInfinity \<Rightarrow> True | _ \<Rightarrow> False)"

text \<open>\<open>Math.min(k, x)\<close> for a finite \<open>k\<close>.\<close>

definition jsMin :: "'a::linordered_field \<Rightarrow> 'a jsnum \<Rightarrow> 'a jsnum" where
  "jsMin k x = (case x of Num a \<Rightarrow> Num (min k a)
                | NaN \<Rightarrow> NaN
                | PosInfinity \<Rightarrow> Num k
                | NegInfinity \<Rightarrow> NegInfinity)"

text \<open>\<open>Math.round(x)\<close>, and \<open>Math.round(x * 10) / 10\<close>, \<open>Math.round(x * 100) / 100\<close>.\<close>

definition jsRound :: "'a::{linordered_field, floor_ceiling} jsnum \<Rightarrow> 'a jsnum" where
  "jsRound x = (case x of Num a \<Rightarrow> Num (of_int (mathRound a)) | other \<Rightarrow> other)"

definition jsRoundTo :: "'a::{linordered_field, floor_ceiling} \<Rightarrow> 'a jsnum \<Rightarrow> 'a jsnum" where
  "jsRoundTo k x = jsOver (jsRound (jsTimes x k)) k"

section \<open>Characters\<close>

text \<open>
  Strings are sequences of 8-bit code units, so the model covers text whose characters lie
  in the first 256 code points. There \<open>\w\<close> is \<open>[A-Za-z0-9_]\<close>, \<open>\s\<close> is the control
  characters 9 to 13, the space and the no-break space, and \<open>toLowerCase\<close> moves
  \<open>A-Z\<close> and the accented capitals 192 to 222 (without the multiplication sign 215) up by 32.
\<close>

definition charCode :: "char \<Rightarrow> nat" where
  "charCode c = of_char c"

definition isDigit :: "char \<Rightarrow> bool" where
  "isDigit c = (48 \<le> charCode c \<and> charCode c \<le> 57)"

definition isWordChar :: "char \<Rightarrow> bool" where
  "isWordChar c = ((65 \<le> charCode c \<and> charCode c \<le> 90) \<or> (97 \<le> charCode c \<and> charCode c \<le> 122)
                   \<or> isDigit c \<or> charCode c = 95)"

definition isSpace :: "char \<Rightarrow> bool" where
  "isSpace c = ((9 \<le> charCode c \<and> charCode c \<le> 13) \<or> charCode c = 32 \<or> charCode c = 160)"

definition lowerChar :: "char \<Rightarrow> char" where
  "lowerChar c = (if (65 \<le> charCode c \<and> charCode c \<le> 90)
                     \<or> (192 \<le> charCode c \<and> charCode c \<le> 222 \<and> charCode c \<noteq> 215)
                  then char_of (charCode c + 32) else c)"

definition toLowerCase :: "string \<Rightarrow> string" where
  "toLowerCase s = map lowerChar s"

section \<open>Response timing (\<open>scripts/analytics/responseTiming.js\<close>)\<close>

text \<open>An entry \<open>{time, timestamp}\<close> pushed to \<open>responseTimes[current.sender]\<close>; the sender is
  kept with it, as \<open>allResponses\<close> does with \<open>{...r, sender}\<close>.\<close>

record response =
  rtime :: rat
  rtimestamp :: int
  rsender :: string

text \<open>One iteration of the loop \<open>for (let i = 1; i < messages.length; i++)\<close> for the pair
  \<open>previous = messages[i - 1]\<close>, \<open>current = messages[i]\<close>: the entries it pushes.\<close>

definition responseOf :: "message \<Rightarrow> message \<Rightarrow> response list" where
  "responseOf previous current =
     (if sender current \<noteq> sender previous then
        (let currentTime = timestamp current;
             previousTime = timestamp previous;
             responseTime = of_int (currentTime - previousTime) / (1000 * 60)
         in if responseTime \<le> 1440 \<and> responseTime \<ge> 0
            then [\<lparr>rtime = responseTime, rtimestamp = currentTime, rsender = sender current\<rparr>]
            else [])
      else [])"

text \<open>The whole loop: every entry pushed, in the order of the pushes.\<close>

fun responseLoop :: "message list \<Rightarrow> response list" where
  "responseLoop (previous # current # rest) =
     responseOf previous current @ responseLoop (current # rest)"
| "responseLoop _ = []"

text \<open>\<open>responseTimes[s]\<close> after the loop.\<close>

definition responseTimes :: "message list \<Rightarrow> string \<Rightarrow> response list" where
  "responseTimes messages s = filter (\<lambda>r. rsender r = s) (responseLoop messages)"

text \<open>\<open>allResponses\<close>: the per-sender arrays concatenated in the order of \<open>senders\<close>, then
  sorted by timestamp (\<open>Array.prototype.sort\<close> is stable).\<close>

definition allResponses :: "message list \<Rightarrow> response list" where
  "allResponses messages =
     sort_key rtimestamp (concat (map (responseTimes messages) (sortedSenders messages)))"

record period =
  plabel :: string
  overallAvg :: rat

text \<open>The loop over \<open>i = 0 .. numPeriods - 1\<close> that builds \<open>periods\<close>.\<close>

definition periodAt :: "response list \<Rightarrow> nat \<Rightarrow> nat \<Rightarrow> period list" where
  "periodAt allR periodSize i =
     (let start = i * periodSize;
          end = min ((i + 1) * periodSize) (length allR);
          periodResponses = slice allR start end
      in if length periodResponses > 0
         then [\<lparr>plabel = ''Period '' @ showNat (i + 1),
                overallAvg = sumBy rtime periodResponses / of_nat (length periodResponses)\<rparr>]
         else [])"

definition buildPeriods :: "response list \<Rightarrow> period list" where
  "buildPeriods allR =
     (let numPeriods = min 10 (max 3 (length allR div 5));
          periodSize = (length allR + numPeriods - 1) div numPeriods
      in concat (map (periodAt allR periodSize) [0..<numPeriods]))"

datatype timingTrend = Stable | Slowing | Quickening

definition timingTrendOf :: "period list \<Rightarrow> timingTrend" where
  "timingTrendOf periods =
     (if length periods \<ge> 2 then
        (let firstHalf = slice periods 0 (length periods div 2);
             secondHalf = drop (length periods div 2) periods;
             firstHalfAvg = sumBy overallAvg firstHalf / of_nat (length firstHalf);
             secondHalfAvg = sumBy overallAvg secondHalf / of_nat (length secondHalf)
         in if secondHalfAvg > firstHalfAvg * (3 / 2) then Slowing
            else if secondHalfAvg < firstHalfAvg * (7 / 10) then Quickening
            else Stable)
      else Stable)"

record senderStat =
  avg :: rat
  count :: nat

definition senderStatOf :: "message list \<Rightarrow> string \<Rightarrow> senderStat" where
  "senderStatOf messages s =
     (let times = map rtime (responseTimes messages s)
      in \<lparr>avg = (if length times > 0
                 then round1 (sumBy id times / of_nat (length times)) else 0),
          count = length times\<rparr>)"

record timingStatistics =
  overallAvgMinutes :: rat
  senderStats :: "(string \<times> senderStat) list"
  trend :: timingTrend
  totalResponses :: nat

text \<open>The result \<open>{labels, datasets, statistics}\<close>; only the \<open>data\<close> of the single dataset
  is kept (the rest is constant styling). \<open>statistics = None\<close> stands for \<open>{}\<close>.\<close>

record timingResult =
  labels :: "string list"
  datasets :: "rat list list"
  statistics :: "timingStatistics option"

definition analyzeResponseTiming :: "message list \<Rightarrow> timingResult" where
  "analyzeResponseTiming messages =
     (if length messages < 2 then \<lparr>labels = [], datasets = [], statistics = None\<rparr>
      else
        (let senders = sortedSenders messages;
             allR = allResponses messages;
             periods = buildPeriods allR;
             allTimes = map rtime allR;
             overall = (if length allTimes > 0
                        then sumBy id allTimes / of_nat (length allTimes) else 0)
         in \<lparr>labels = map plabel periods,
             datasets = [map (\<lambda>p. round1 (overallAvg p)) periods],
             statistics = Some
               \<lparr>overallAvgMinutes = round1 overall,
                senderStats = map (\<lambda>s. (s, senderStatOf messages s)) senders,
                trend = timingTrendOf periods,
                totalResponses = length allR\<rparr>\<rparr>))"

text \<open>The loop's condition for index \<open>i\<close>, read off the source: the senders of
  \<open>messages[i - 1]\<close> and \<open>messages[i]\<close> differ and the delta in minutes lies in
  \<open>[0, 1440]\<close>.\<close>

definition isResponsePair :: "message list \<Rightarrow> nat \<Rightarrow> bool" where
  "isResponsePair messages i =
     (sender (messages ! i) \<noteq> sender (messages ! (i - 1)) \<and>
      (let delta = (of_int (timestamp (messages ! i) - timestamp (messages ! (i - 1))) :: rat) / (1000 * 60)
       in 0 \<le> delta \<and> delta \<le> 1440))"

text \<open>A four-message conversation: a reply after one minute, a same-sender follow-up, and
  a reply after more than a day.\<close>

definition timingExample :: "message list" where
  "timingExample =
     [\<lparr>timestamp = 0, sender = ''A'', msgText = ''hi''\<rparr>,
      \<lparr>timestamp = 60000, sender = ''B'', msgText = ''hello''\<rparr>,
      \<lparr>timestamp = 120000, sender = ''B'', msgText = ''you there?''\<rparr>,
      \<lparr>timestamp = 200000000, sender = ''A'', msgText = ''sorry, was away''\<rparr>]"

section \<open>Initiation balance (\<open>scripts/analytics/initiationBalance.js\<close>)\<close>

text \<open>\<open>xs[i]\<close> on an array: \<open>undefined\<close> (here \<open>None\<close>) out of range.\<close>

definition arrayAt :: "'a list \<Rightarrow> nat \<Rightarrow> 'a option" where
  "arrayAt xs i = (if i < length xs then Some (xs ! i) else None)"

text \<open>\<open>obj[k]\<close> where \<open>k\<close> is a string or \<open>undefined\<close>: the key is converted to a string, and
  \<open>undefined\<close> becomes the property name \<open>"undefined"\<close>.\<close>

definition propertyKey :: "string option \<Rightarrow> string" where
  "propertyKey k = (case k of Some s \<Rightarrow> s | None \<Rightarrow> ''undefined'')"

text \<open>\<open>CONVERSATION_GAP_HOURS * 60 * 60 * 1000\<close>.\<close>

definition CONVERSATION_GAP_HOURS :: int where
  "CONVERSATION_GAP_HOURS = 4"

definition gapThreshold :: int where
  "gapThreshold = CONVERSATION_GAP_HOURS * 60 * 60 * 1000"

text \<open>The object \<open>initiations\<close>: its own keys are the senders; \<open>initiations[s]++\<close> on a key.\<close>

definition increment :: "(string \<Rightarrow> nat) \<Rightarrow> string \<Rightarrow> (string \<Rightarrow> nat)" where
  "increment obj k = obj(k := obj k + 1)"

text \<open>The loop \<open>for (let i = 1; i < messages.length; i++)\<close>, threading \<open>initiations\<close>.\<close>

fun initiationLoop :: "(string \<Rightarrow> nat) \<Rightarrow> message list \<Rightarrow> (string \<Rightarrow> nat)" where
  "initiationLoop initiations (previous # current # rest) =
     (let gap = timestamp current - timestamp previous
      in initiationLoop
           (if gap \<ge> gapThreshold then increment initiations (sender current) else initiations)
           (current # rest))"
| "initiationLoop initiations _ = initiations"

text \<open>\<open>initiations\<close> after \<open>initiations[messages[0].sender]++\<close> and the loop. The function
  is only reached with at least two messages; the empty case is there for totality.\<close>

definition countInitiations :: "message list \<Rightarrow> (string \<Rightarrow> nat)" where
  "countInitiations messages =
     (case messages of
        [] \<Rightarrow> (\<lambda>s. 0)
      | first # _ \<Rightarrow> initiationLoop (increment (\<lambda>s. 0) (sender first)) messages)"

datatype balanceKind = Balanced | SlightlyUnbalanced | Unbalanced

text \<open>\<open>Math.abs(percentages[senders[0]] - percentages[senders[1]])\<close>: a missing property is
  \<open>undefined\<close>, and arithmetic on \<open>undefined\<close> gives \<open>NaN\<close>.\<close>

definition percentDiff :: "(string \<times> int) list \<Rightarrow> string list \<Rightarrow> rat jsnum" where
  "percentDiff percentages senders =
     (case (map_of percentages (propertyKey (arrayAt senders 0)),
            map_of percentages (propertyKey (arrayAt senders 1))) of
        (Some a, Some b) \<Rightarrow> Num (of_int \<bar>a - b\<bar>)
      | _ \<Rightarrow> NaN)"

definition balanceOf :: "rat jsnum \<Rightarrow> balanceKind" where
  "balanceOf diff = (if jsLe diff 10 then Balanced
                     else if jsLe diff 25 then SlightlyUnbalanced
                     else Unbalanced)"

text \<open>\<open>initiations[senders[0]] > initiations[senders[1]]\<close>: a comparison with \<open>undefined\<close>
  is false.\<close>

definition firstInitiatesMore :: "(string \<times> nat) list \<Rightarrow> string list \<Rightarrow> bool" where
  "firstInitiatesMore counts senders =
     (case (map_of counts (propertyKey (arrayAt senders 0)),
            map_of counts (propertyKey (arrayAt senders 1))) of
        (Some a, Some b) \<Rightarrow> a > b
      | _ \<Rightarrow> False)"

record initiationStatistics =
  total :: nat
  counts :: "(string \<times> nat) list"
  percentages :: "(string \<times> int) list"
  balance :: balanceKind
  moreInitiator :: "string option"
  lessInitiator :: "string option"
  difference :: "rat jsnum"

text \<open>The result \<open>{labels, data, backgroundColor, statistics}\<close> without the constant colours;
  \<open>initStatistics = None\<close> stands for \<open>{}\<close>.\<close>

record initiationResult =
  initLabels :: "string list"
  initData :: "nat list"
  initStatistics :: "initiationStatistics option"

definition analyzeInitiationBalance :: "message list \<Rightarrow> initiationResult" where
  "analyzeInitiationBalance messages =
     (if length messages < 2 then \<lparr>initLabels = [], initData = [], initStatistics = None\<rparr>
      else
        (let senders = sortedSenders messages;
             initiations = countInitiations messages;
             totalInitiations = sum_list (map initiations senders);
             pcts = map (\<lambda>s. (s, if totalInitiations > 0
                                   then mathRound (of_nat (initiations s) / of_nat totalInitiations * 100 :: rat)
                                   else 0)) senders;
             cnts = map (\<lambda>s. (s, initiations s)) senders;
             diff = percentDiff pcts senders;
             more = firstInitiatesMore cnts senders
         in \<lparr>initLabels = senders,
             initData = map initiations senders,
             initStatistics = Some
               \<lparr>total = totalInitiations,
                counts = cnts,
                percentages = pcts,
                balance = balanceOf diff,
                moreInitiator = (if more then arrayAt senders 0 else arrayAt senders 1),
                lessInitiator = (if more then arrayAt senders 1 else arrayAt senders 0),
                difference = diff\<rparr>\<rparr>))"



section \<open>The \<open>Date\<close> built-in, as far as the program uses it\<close>

text \<open>
  A valid \<open>Date\<close> is its time value: milliseconds since the epoch. The calendar follows
  the proleptic Gregorian rules of ECMAScript. Local time is modelled as a fixed offset from
  UTC (no daylight-saving transitions); the offset and the clock are the ambient values that
  the program reads implicitly, collected in \<open>env\<close>.
\<close>

record env =
  now :: int          \<comment> \<open>the time value that \<open>new Date()\<close> returns\<close>
  localOffset :: int  \<comment> \<open>local time minus UTC, in milliseconds\<close>

definition msPerDay :: int where
  "msPerDay = 1000 * 60 * 60 * 24"

text \<open>Day number (days since 1970-01-01) to year, month (1 to 12) and day of month.\<close>

definition civilFromDays :: "int \<Rightarrow> int \<times> int \<times> int" where
  "civilFromDays z0 =
     (let z = z0 + 719468;
          era = z div 146097;
          doe = z - era * 146097;
          yoe = (doe - doe div 1460 + doe div 36524 - doe div 146096) div 365;
          y = yoe + era * 400;
          doy = doe - (365 * yoe + yoe div 4 - yoe div 100);
          mp = (5 * doy + 2) div 153;
          d = doy - (153 * mp + 2) div 5 + 1;
          m = (if mp < 10 then mp + 3 else mp - 9)
      in (if m \<le> 2 then y + 1 else y, m, d))"

text \<open>Year, month (1 to 12) and day of month to day number.\<close>

definition daysFromCivil :: "int \<Rightarrow> int \<Rightarrow> int \<Rightarrow> int" where
  "daysFromCivil y0 m d =
     (let y = (if m \<le> 2 then y0 - 1 else y0);
          era = y div 400;
          yoe = y - era * 400;
          doy = (153 * (if m > 2 then m - 3 else m + 9) + 2) div 5 + d - 1;
          doe = yoe * 365 + yoe div 4 - yoe div 100 + doy
      in era * 146097 + doe - 719468)"

text \<open>\<open>String(n).padStart(w, '0')\<close>.\<close>

definition padStart :: "nat \<Rightarrow> string \<Rightarrow> string" where
  "padStart w s = replicate (w - length s) CHR ''0'' @ s"

text \<open>The year of an ISO string: four digits, or a sign and six digits outside 0 to 9999.\<close>

definition isoYear :: "int \<Rightarrow> string" where
  "isoYear y = (if 0 \<le> y \<and> y \<le> 9999 then padStart 4 (showNat (nat y))
                else (if y < 0 then ''-'' else ''+'') @ padStart 6 (showNat (nat \<bar>y\<bar>)))"

text \<open>\<open>date.toISOString().split('T')[0]\<close>: the UTC calendar date of a time value.\<close>

definition toISODate :: "int \<Rightarrow> string" where
  "toISODate t =
     (case civilFromDays (t div msPerDay) of
        (y, m, d) \<Rightarrow> isoYear y @ ''-'' @ padStart 2 (showNat (nat m)) @ ''-'' @ padStart 2 (showNat (nat d)))"

definition digitValue :: "char \<Rightarrow> nat" where
  "digitValue c = of_char c - 48"

definition digitsValue :: "string \<Rightarrow> nat" where
  "digitsValue s = foldl (\<lambda>n c. 10 * n + digitValue c) 0 s"

text \<open>\<open>s.split(c)\<close>.\<close>

fun splitOn :: "char \<Rightarrow> string \<Rightarrow> string list" where
  "splitOn c [] = [[]]"
| "splitOn c (x # xs) =
     (if x = c then [] # splitOn c xs
      else (case splitOn c xs of [] \<Rightarrow> [[x]] | p # ps \<Rightarrow> (x # p) # ps))"

text \<open>\<open>new Date(s).getTime()\<close> for a date-only ISO string \<open>s\<close>, which denotes UTC midnight.
  The program only applies it to strings that \<open>toISODate\<close> produced; any other shape is an
  invalid date, \<open>None\<close>.\<close>

definition dateFromISO :: "string \<Rightarrow> int option" where
  "dateFromISO s =
     (let (sgn, body) =
            (case s of
               c # r \<Rightarrow> if c = CHR ''+'' then (1, r) else if c = CHR ''-'' then (- 1, r) else (1, s)
             | [] \<Rightarrow> (1, s))
      in case splitOn CHR ''-'' body of
           [y, m, d] \<Rightarrow>
             if y \<noteq> [] \<and> m \<noteq> [] \<and> d \<noteq> [] \<and> list_all (\<lambda>c. c \<in> set ''0123456789'') (y @ m @ d)
             then Some (daysFromCivil (sgn * int (digitsValue y)) (int (digitsValue m))
                          (int (digitsValue d)) * msPerDay)
             else None
         | _ \<Rightarrow> None)"

text \<open>\<open>d.setHours(0, 0, 0, 0)\<close>: the local midnight at or before a time value.\<close>

definition setHoursZero :: "env \<Rightarrow> int \<Rightarrow> int" where
  "setHoursZero e t = ((t + localOffset e) div msPerDay) * msPerDay - localOffset e"

section \<open>Streaks (\<open>scripts/analytics/streakAnalysis.js\<close>)\<close>

record streak =
  streakStart :: string
  streakEnd :: string
  streakLength :: nat

text \<open>\<open>Math.round((currDate - prevDate) / (1000 * 60 * 60 * 24))\<close> for two date strings.
  An invalid date makes the difference \<open>NaN\<close>, which equals no number: \<open>None\<close>.\<close>

definition diffDays :: "string \<Rightarrow> string \<Rightarrow> int option" where
  "diffDays prevDate currDate =
     (case (dateFromISO prevDate, dateFromISO currDate) of
        (Some p, Some c) \<Rightarrow> Some (mathRound (of_int (c - p) / of_int msPerDay :: rat))
      | _ \<Rightarrow> None)"

text \<open>The loop \<open>for (let i = 1; i < sortedDates.length; i++)\<close> over the pairs
  \<open>sortedDates[i - 1]\<close>, \<open>sortedDates[i]\<close>, threading \<open>streaks\<close>, \<open>currentStreak\<close> and
  \<open>streakStart\<close>.\<close>

fun streakLoop :: "streak list \<Rightarrow> nat \<Rightarrow> string \<Rightarrow> string list \<Rightarrow> streak list \<times> nat \<times> string" where
  "streakLoop streaks currentStreak start (prevDate # currDate # rest) =
     (if diffDays prevDate currDate = Some 1
      then streakLoop streaks (currentStreak + 1) start (currDate # rest)
      else streakLoop
             (streaks @ [\<lparr>streakStart = start, streakEnd = prevDate, streakLength = currentStreak\<rparr>])
             1 currDate (currDate # rest))"
| "streakLoop streaks currentStreak start _ = (streaks, currentStreak, start)"

text \<open>\<open>streaks\<close> after the loop and the push of the last streak. Only reached with a
  non-empty \<open>sortedDates\<close>.\<close>

definition computeStreaks :: "string list \<Rightarrow> streak list" where
  "computeStreaks sortedDates =
     (case sortedDates of
        [] \<Rightarrow> []
      | first # _ \<Rightarrow>
          (case streakLoop [] 1 first sortedDates of
             (streaks, currentStreak, start) \<Rightarrow>
               streaks @ [\<lparr>streakStart = start, streakEnd = last sortedDates,
                            streakLength = currentStreak\<rparr>]))"

text \<open>\<open>Math.max(...xs)\<close> on a non-empty list of lengths.\<close>

definition mathMax :: "nat list \<Rightarrow> nat" where
  "mathMax xs = foldl max 0 xs"

text \<open>The second loop: \<open>totalGaps\<close> and \<open>gapCount\<close> over the gaps of more than one day.\<close>

fun gapLoop :: "int \<Rightarrow> nat \<Rightarrow> string list \<Rightarrow> int \<times> nat" where
  "gapLoop totalGaps gapCount (prevDate # currDate # rest) =
     (case diffDays prevDate currDate of
        Some d \<Rightarrow> if d > 1 then gapLoop (totalGaps + d) (gapCount + 1) (currDate # rest)
                  else gapLoop totalGaps gapCount (currDate # rest)
      | None \<Rightarrow> gapLoop totalGaps gapCount (currDate # rest))"
| "gapLoop totalGaps gapCount _ = (totalGaps, gapCount)"

record streakResult =
  longestStreak :: nat
  longestStreakInfo :: "streak option"
  currentStreak :: nat
  isStreakActive :: "bool option"
  totalActiveDays :: nat
  totalSpanDays :: "int option"
  activeDayPercent :: "rat jsnum option"
  avgGapDays :: "rat option"
  streakHistory :: "streak list"

text \<open>The zero-valued result of the two early returns; the fields it does not have are
  \<open>None\<close>.\<close>

definition emptyStreakResult :: streakResult where
  "emptyStreakResult =
     \<lparr>longestStreak = 0, longestStreakInfo = None, currentStreak = 0, isStreakActive = None,
      totalActiveDays = 0, totalSpanDays = None, activeDayPercent = None, avgGapDays = None,
      streakHistory = []\<rparr>"

text \<open>The set of date strings, in insertion order, and its sorted copy.\<close>

definition activeDates :: "message list \<Rightarrow> string list" where
  "activeDates messages = newSet (map (\<lambda>msg. toISODate (timestamp msg)) messages)"

definition sortedDatesOf :: "message list \<Rightarrow> string list" where
  "sortedDatesOf messages = sort (activeDates messages)"

text \<open>\<open>daysSinceLastMessage\<close>: both \<open>today = new Date()\<close> and \<open>lastDate\<close> are moved to local
  midnight before the difference is rounded to days.\<close>

definition daysSinceLastMessage :: "env \<Rightarrow> string list \<Rightarrow> int option" where
  "daysSinceLastMessage e sortedDates =
     (case dateFromISO (last sortedDates) of
        Some lastDate \<Rightarrow>
          Some (mathRound (of_int (setHoursZero e (now e) - setHoursZero e lastDate) / of_int msPerDay :: rat))
      | None \<Rightarrow> None)"

definition analyzeStreaks :: "env \<Rightarrow> message list \<Rightarrow> streakResult" where
  "analyzeStreaks e messages =
     (if length messages = 0 then emptyStreakResult
      else
        (let sortedDates = sortedDatesOf messages;
             totalActive = length sortedDates
         in if totalActive = 0 then emptyStreakResult
            else
              (let streaks = computeStreaks sortedDates;
                   longest = mathMax (map streakLength streaks);
                   active = (case daysSinceLastMessage e sortedDates of
                               Some d \<Rightarrow> d \<le> 1 | None \<Rightarrow> False);
                   (totalGaps, gapCount) = gapLoop 0 0 sortedDates;
                   avgGap = (if gapCount > 0 then round1 (of_int totalGaps / of_nat gapCount) else 0);
                   span = (case (dateFromISO (hd sortedDates), dateFromISO (last sortedDates)) of
                             (Some firstDate, Some lastDateEnd) \<Rightarrow>
                               Some (mathRound (of_int (lastDateEnd - firstDate) / of_int msPerDay :: rat) + 1)
                           | _ \<Rightarrow> None)
               in \<lparr>longestStreak = longest,
                   longestStreakInfo = find (\<lambda>s. streakLength s = longest) streaks,
                   currentStreak = (if active then streakLength (last streaks) else 0),
                   isStreakActive = Some active,
                   totalActiveDays = totalActive,
                   totalSpanDays = span,
                   activeDayPercent =
                     (case span of
                        Some sp \<Rightarrow> Some (jsRound (jsTimes (jsDiv (of_nat totalActive) (of_int sp)) 100))
                      | None \<Rightarrow> Some NaN),
                   avgGapDays = Some avgGap,
                   streakHistory = filter (\<lambda>s. streakLength s \<ge> 3) streaks\<rparr>)))"

text \<open>
  The spec's words for the streak walk, as a second definition to compare the loop with:
  the sorted dates are cut into maximal runs of consecutive days, where a gap of exactly one
  day extends the current run and any other gap closes it.
\<close>

fun dayRuns :: "string list \<Rightarrow> string list list" where
  "dayRuns [] = []"
| "dayRuns [d] = [[d]]"
| "dayRuns (d # e # rest) =
     (if diffDays d e = Some 1
      then (case dayRuns (e # rest) of r # rs \<Rightarrow> (d # r) # rs | [] \<Rightarrow> [[d]])
      else [d] # dayRuns (e # rest))"

text \<open>The streak entry of a run: its first date, its last date and its length.\<close>

definition streakOfRun :: "string list \<Rightarrow> streak" where
  "streakOfRun r = \<lparr>streakStart = hd r, streakEnd = last r, streakLength = length r\<rparr>"

text \<open>Five messages on the dates 2024-01-01 (two of them), 2024-01-02, 2024-01-03 and
  2024-01-10, and the four dates as strings.\<close>

definition streakExample :: "message list" where
  "streakExample =
     [\<lparr>timestamp = 1704110400000, sender = ''A'', msgText = ''a''\<rparr>,
      \<lparr>timestamp = 1704114000000, sender = ''B'', msgText = ''b''\<rparr>,
      \<lparr>timestamp = 1704196800000, sender = ''A'', msgText = ''c''\<rparr>,
      \<lparr>timestamp = 1704283200000, sender = ''B'', msgText = ''d''\<rparr>,
      \<lparr>timestamp = 1704888000000, sender = ''A'', msgText = ''e''\<rparr>]"

definition janDates :: "string list" where
  "janDates = [''2024-01-01'', ''2024-01-02'', ''2024-01-03'', ''2024-01-10'']"

section \<open>Conversation rhythm (\<open>scripts/analytics/conversationRhythm.js\<close>)\<close>

text \<open>The gaps in minutes between consecutive messages.\<close>

fun gapsOf :: "message list \<Rightarrow> rat list" where
  "gapsOf (previous # current # rest) =
     (of_int (timestamp current - timestamp previous) / (1000 * 60)) # gapsOf (current # rest)"
| "gapsOf _ = []"

record phase =
  phaseName :: string
  phaseMessageCount :: nat
  phaseAvgGapMinutes :: rat
  phaseSenderCounts :: "(string \<times> nat) list"

text \<open>One phase of \<open>analyzePhases\<close>: \<open>index\<close> is 0, 1 or 2.\<close>

definition phaseAt :: "message list \<Rightarrow> nat \<Rightarrow> string \<Rightarrow> phase" where
  "phaseAt messages index name =
     (let thirdLength = length messages div 3;
          start = index * thirdLength;
          end = (if index = 2 then length messages else (index + 1) * thirdLength);
          phaseMessages = slice messages start end;
          gaps = gapsOf phaseMessages;
          avgGap = (if length gaps > 0 then sumBy id gaps / of_nat (length gaps) else 0);
          senders = newSet (map sender phaseMessages)
      in \<lparr>phaseName = name,
          phaseMessageCount = length phaseMessages,
          phaseAvgGapMinutes = round1 avgGap,
          phaseSenderCounts =
            map (\<lambda>s. (s, length (filter (\<lambda>m. sender m = s) phaseMessages))) senders\<rparr>)"

definition analyzePhases :: "message list \<Rightarrow> phase list" where
  "analyzePhases messages =
     [phaseAt messages 0 ''early'', phaseAt messages 1 ''middle'', phaseAt messages 2 ''late'']"

datatype rhythmKind =
  InsufficientData | RhythmSlowing | Irregular | Accelerating | RhythmStable | Variable

record rhythmDetails =
  avgGapMinutes :: rat
  medianGapMinutes :: rat
  variabilityCoefficient :: "real jsnum"
  firstPhaseAvgGap :: rat
  lastPhaseAvgGap :: rat
  phases :: "phase list"

text \<open>The result \<open>{rhythm, confidence, details}\<close>; \<open>rhythmDetails = None\<close> stands for \<open>{}\<close>.\<close>

record rhythmResult =
  rhythm :: rhythmKind
  confidence :: "real jsnum"
  details :: "rhythmDetails option"

text \<open>The classification chain, first match first. \<open>cv\<close> is \<open>stdDev / avgGap\<close>, which is
  \<open>NaN\<close> when every gap is zero; the ratio \<open>lastThirdAvg / firstThirdAvg\<close> is only taken
  in the branches that need it.\<close>

definition classifyRhythm :: "real jsnum \<Rightarrow> rat \<Rightarrow> rat \<Rightarrow> rhythmKind \<times> real jsnum" where
  "classifyRhythm cv firstThirdAvg lastThirdAvg =
     (let ratio = jsDiv (of_rat lastThirdAvg) (of_rat firstThirdAvg :: real)
      in if lastThirdAvg > firstThirdAvg * 2
           then (RhythmSlowing, jsMin (9 / 10) (jsOver (jsMinus ratio 1) 3))
         else if jsGt cv (3 / 2)
           then (Irregular, jsMin (9 / 10) (jsOver (jsMinus cv 1) 2))
         else if lastThirdAvg < firstThirdAvg * (1 / 2)
           then (Accelerating, jsMin (9 / 10) (jsFrom 1 ratio))
         else if jsLt cv (8 / 10)
           then (RhythmStable, jsMin (9 / 10) (jsFrom 1 cv))
         else (Variable, Num (1 / 2)))"

definition analyzeConversationRhythm :: "message list \<Rightarrow> rhythmResult" where
  "analyzeConversationRhythm messages =
     (if length messages < 5
      then \<lparr>rhythm = InsufficientData, confidence = Num 0, details = None\<rparr>
      else
        (let gaps = gapsOf messages;
             avgGap = sumBy id gaps / of_nat (length gaps);
             sortedGaps = sort gaps;
             medianGap = sortedGaps ! (length sortedGaps div 2);
             variance = sumBy (\<lambda>g. (g - avgGap) ^ 2) gaps / of_nat (length gaps);
             stdDev = sqrt (of_rat variance);
             cv = jsDiv stdDev (of_rat avgGap);
             thirdLength = length gaps div 3;
             firstThird = slice gaps 0 thirdLength;
             lastThird = drop (length gaps - thirdLength) gaps;
             firstThirdAvg = sumBy id firstThird / of_nat (length firstThird);
             lastThirdAvg = sumBy id lastThird / of_nat (length lastThird);
             (kind, conf) = classifyRhythm cv firstThirdAvg lastThirdAvg
         in \<lparr>rhythm = kind,
             confidence = jsRoundTo 100 conf,
             details = Some
               \<lparr>avgGapMinutes = round1 avgGap,
                medianGapMinutes = round1 medianGap,
                variabilityCoefficient = jsRoundTo 100 cv,
                firstPhaseAvgGap = round1 firstThirdAvg,
                lastPhaseAvgGap = round1 lastThirdAvg,
                phases = analyzePhases messages\<rparr>\<rparr>))"

section \<open>Lexical diversity (\<open>scripts/analytics/lexicalDiversity.js\<close>)\<close>

text \<open>\<open>s.split(/\s+/)\<close>: the pieces between maximal runs of white space; a run at the very
  start or end leaves an empty piece there, and the empty string gives one empty piece.\<close>

fun splitSpacesFrom :: "bool \<Rightarrow> string \<Rightarrow> string list" where
  "splitSpacesFrom inSeparator [] = [[]]"
| "splitSpacesFrom inSeparator (c # cs) =
     (if isSpace c
      then (if inSeparator then splitSpacesFrom True cs else [] # splitSpacesFrom True cs)
      else (case splitSpacesFrom False cs of
              p # ps \<Rightarrow> (c # p) # ps
            | [] \<Rightarrow> [[c]]))"

definition splitSpaces :: "string \<Rightarrow> string list" where
  "splitSpaces s = splitSpacesFrom False s"

definition extractWords :: "string \<Rightarrow> string list" where
  "extractWords t =
     filter (\<lambda>word. length word > 1)
       (splitSpaces (map (\<lambda>c. if isWordChar c \<or> isSpace c then c else CHR '' '') (toLowerCase t)))"

text \<open>\<open>calculateTTR\<close>: unique words over all words, 0 without messages or words.\<close>

definition calculateTTR :: "message list \<Rightarrow> rat" where
  "calculateTTR messages =
     (if length messages = 0 then 0
      else
        (let allWords = concat (map (\<lambda>msg. extractWords (msgText msg)) messages);
             uniqueWords = newSet allWords
         in if length allWords = 0 then 0
            else of_nat (length uniqueWords) / of_nat (length allWords)))"

definition countWords :: "message list \<Rightarrow> nat" where
  "countWords messages = foldl (\<lambda>n msg. n + length (extractWords (msgText msg))) 0 messages"

definition countUniqueWords :: "message list \<Rightarrow> nat" where
  "countUniqueWords messages =
     length (newSet (concat (map (\<lambda>msg. extractWords (msgText msg)) messages)))"

text \<open>\<open>Math.round(x * 100) / 100\<close>.\<close>

definition round2 :: "rat \<Rightarrow> rat" where
  "round2 x = of_int (mathRound (x * 100)) / 100"

record lexPeriod =
  lexLabel :: string
  ttr :: rat
  senderTTR :: "(string \<times> rat) list"

definition lexPeriodAt :: "message list \<Rightarrow> string list \<Rightarrow> nat \<Rightarrow> nat \<Rightarrow> lexPeriod list" where
  "lexPeriodAt messages senders periodSize i =
     (let start = i * periodSize;
          end = min ((i + 1) * periodSize) (length messages);
          periodMessages = slice messages start end
      in if length periodMessages > 0
         then [\<lparr>lexLabel = ''Period '' @ showNat (i + 1),
                ttr = calculateTTR periodMessages,
                senderTTR = map (\<lambda>s. (s, calculateTTR (filter (\<lambda>m. sender m = s) periodMessages)))
                                senders\<rparr>]
         else [])"

datatype lexTrend = Increasing | Decreasing | LexStable

record lexSenderStat =
  senderTtr :: rat
  totalWords :: nat
  uniqueWords :: nat

record lexStatistics =
  overallTTR :: rat
  lexTrendOf :: lexTrend
  lexFirstHalfAvg :: "rat jsnum"
  lexSecondHalfAvg :: "rat jsnum"
  lexSenderStats :: "(string \<times> lexSenderStat) list"

text \<open>The result \<open>{labels, datasets, statistics}\<close>, with the \<open>data\<close> of the single dataset;
  \<open>lexStats = None\<close> stands for \<open>{}\<close>.\<close>

record lexResult =
  lexLabels :: "string list"
  lexDatasets :: "rat list list"
  lexStats :: "lexStatistics option"

definition analyzeLexicalDiversity :: "message list \<Rightarrow> lexResult" where
  "analyzeLexicalDiversity messages =
     (if length messages < 10 then \<lparr>lexLabels = [], lexDatasets = [], lexStats = None\<rparr>
      else
        (let senders = sortedSenders messages;
             numPeriods = min 10 (max 4 (length messages div 20));
             periodSize = (length messages + numPeriods - 1) div numPeriods;
             periods = concat (map (lexPeriodAt messages senders periodSize) [0..<numPeriods]);
             firstHalf = slice periods 0 (length periods div 2);
             secondHalf = drop (length periods div 2) periods;
             firstHalfAvg = jsDiv (sumBy ttr firstHalf) (of_nat (length firstHalf));
             secondHalfAvg = jsDiv (sumBy ttr secondHalf) (of_nat (length secondHalf));
             tr = (case (firstHalfAvg, secondHalfAvg) of
                     (Num f, Num s) \<Rightarrow> if s > f * (11 / 10) then Increasing
                                        else if s < f * (9 / 10) then Decreasing else LexStable
                   | _ \<Rightarrow> LexStable)
         in \<lparr>lexLabels = map lexLabel periods,
             lexDatasets = [map (\<lambda>p. round2 (ttr p)) periods],
             lexStats = Some
               \<lparr>overallTTR = round2 (calculateTTR messages),
                lexTrendOf = tr,
                lexFirstHalfAvg = jsRoundTo 100 firstHalfAvg,
                lexSecondHalfAvg = jsRoundTo 100 secondHalfAvg,
                lexSenderStats =
                  map (\<lambda>s. (s, let senderMessages = filter (\<lambda>m. sender m = s) messages
                               in \<lparr>senderTtr = round2 (calculateTTR senderMessages),
                                   totalWords = countWords senderMessages,
                                   uniqueWords = countUniqueWords senderMessages\<rparr>)) senders\<rparr>\<rparr>))"

text \<open>A conversation of one message.\<close>

definition singleMessage :: "message list" where
  "singleMessage = [\<lparr>timestamp = 0, sender = ''A'', msgText = ''hello there''\<rparr>]"

section \<open>Message activity (\<open>scripts/analytics/messageActivity.js\<close>)\<close>

text \<open>Local calendar fields of a time value: \<open>getFullYear\<close>, \<open>getMonth() + 1\<close>,
  \<open>getDate\<close> and \<open>getDay\<close> (0 is Sunday; 1970-01-01 was a Thursday).\<close>

definition localDay :: "env \<Rightarrow> int \<Rightarrow> int" where
  "localDay e t = (t + localOffset e) div msPerDay"

definition getDay :: "env \<Rightarrow> int \<Rightarrow> int" where
  "getDay e t = (localDay e t + 4) mod 7"

text \<open>\<open>String(n)\<close> for an integer.\<close>

definition showInt :: "int \<Rightarrow> string" where
  "showInt n = (if n < 0 then ''-'' @ showNat (nat (- n)) else showNat (nat n))"

datatype binKind = Day | Week | Month

text \<open>The key \<open>year-month-day\<close> (or \<open>year-month\<close>) of a local day number.\<close>

definition dayKey :: "int \<Rightarrow> string" where
  "dayKey d = (case civilFromDays d of
                 (y, m, dd) \<Rightarrow> showInt y @ ''-'' @ padStart 2 (showNat (nat m)) @ ''-''
                                @ padStart 2 (showNat (nat dd)))"

definition monthKey :: "int \<Rightarrow> string" where
  "monthKey d = (case civilFromDays d of
                   (y, m, dd) \<Rightarrow> showInt y @ ''-'' @ padStart 2 (showNat (nat m)))"

text \<open>\<open>getBinKey\<close>: for a week, \<open>weekStart.setDate(date.getDate() - date.getDay())\<close> moves
  back to the Sunday of the week.\<close>

definition getBinKey :: "env \<Rightarrow> int \<Rightarrow> binKind \<Rightarrow> string" where
  "getBinKey e date binType =
     (case binType of
        Month \<Rightarrow> monthKey (localDay e date)
      | Week \<Rightarrow> dayKey (localDay e date - getDay e date)
      | Day \<Rightarrow> dayKey (localDay e date))"

text \<open>\<open>parseInt(s)\<close> on a string of digits, and \<open>NaN\<close> (here \<open>None\<close>) when \<open>s\<close> does not
  start with a digit. Signs and leading white space do not occur in the parts of a key.\<close>

definition parseIntOf :: "string \<Rightarrow> nat option" where
  "parseIntOf s = (case takeWhile (\<lambda>c. c \<in> set ''0123456789'') s of
                     [] \<Rightarrow> None
                   | ds \<Rightarrow> Some (digitsValue ds))"

text \<open>A template literal prints a missing array element as \<open>undefined\<close>.\<close>

definition templateOf :: "string option \<Rightarrow> string" where
  "templateOf x = (case x of Some s \<Rightarrow> s | None \<Rightarrow> ''undefined'')"

definition monthNames :: "string list" where
  "monthNames = [''Jan'', ''Feb'', ''Mar'', ''Apr'', ''May'', ''Jun'',
                 ''Jul'', ''Aug'', ''Sep'', ''Oct'', ''Nov'', ''Dec'']"

definition formatBinLabel :: "string \<Rightarrow> binKind \<Rightarrow> string" where
  "formatBinLabel key binType =
     (let parts = splitOn CHR ''-'' key
      in case binType of
           Month \<Rightarrow>
             templateOf (case arrayAt parts 1 of
                           None \<Rightarrow> None
                         | Some p \<Rightarrow> (case parseIntOf p of
                                        None \<Rightarrow> None
                                      | Some n \<Rightarrow> if n \<ge> 1 then arrayAt monthNames (n - 1) else None))
             @ '' '' @ templateOf (arrayAt parts 0)
         | _ \<Rightarrow> templateOf (arrayAt parts 2) @ ''/'' @ templateOf (arrayAt parts 1))"

text \<open>
  \<open>bins\<close>: the keys in order of creation, and for every key an object whose properties are
  the senders and \<open>total\<close>, all starting at 0. A missing property reads as 0 here; the
  loop only increments properties that exist, since every \<open>msg.sender\<close> is in \<open>senders\<close>.
\<close>

record bins =
  binKeys :: "string list"
  binCount :: "string \<Rightarrow> string \<Rightarrow> nat"

text \<open>One iteration of \<open>for (const msg of messages)\<close>: create the bin if it is new, then
  \<open>bins[binKey][msg.sender]++\<close> and \<open>bins[binKey].total++\<close>.\<close>

definition addToBin :: "env \<Rightarrow> binKind \<Rightarrow> bins \<Rightarrow> message \<Rightarrow> bins" where
  "addToBin e binType b msg =
     (let binKey = getBinKey e (timestamp msg) binType;
          created = (if binKey \<in> set (binKeys b) then b
                     else b\<lparr>binKeys := binKeys b @ [binKey],
                            binCount := (binCount b)(binKey := (\<lambda>p. 0))\<rparr>);
          counted = (binCount created)
                      (binKey := ((binCount created) binKey)
                         (sender msg := (binCount created) binKey (sender msg) + 1));
          totalled = counted
                      (binKey := (counted binKey)(''total'' := counted binKey ''total'' + 1))
      in created\<lparr>binCount := totalled\<rparr>)"

definition buildBins :: "env \<Rightarrow> binKind \<Rightarrow> message list \<Rightarrow> bins" where
  "buildBins e binType messages =
     foldl (addToBin e binType) \<lparr>binKeys = [], binCount = (\<lambda>k p. 0)\<rparr> messages"

datatype activityTrend = ActIncreasing | ActDecreasing | ActStable

record activityStatistics =
  actTotalMessages :: nat
  avgPerBin :: rat
  actTrend :: activityTrend
  firstHalfAvg :: "rat jsnum"
  secondHalfAvg :: "rat jsnum"

text \<open>The result \<open>{labels, datasets, binType, statistics}\<close>; a dataset is kept as its label
  and data. The early return for no messages has only \<open>labels\<close> and \<open>datasets\<close>.\<close>

record activityResult =
  actLabels :: "string list"
  actDatasets :: "(string \<times> nat list) list"
  actBinType :: "binKind option"
  actStatistics :: "activityStatistics option"

definition analyzeMessageActivity :: "env \<Rightarrow> message list \<Rightarrow> activityResult" where
  "analyzeMessageActivity e messages =
     (if length messages = 0
      then \<lparr>actLabels = [], actDatasets = [], actBinType = None, actStatistics = None\<rparr>
      else
        (let startDate = timestamp (hd messages);
             endDate = timestamp (last messages);
             durationDays = (of_int (endDate - startDate) :: rat) / of_int msPerDay;
             binType = (if durationDays > 365 then Month else if durationDays > 60 then Week else Day);
             senders = sortedSenders messages;
             b = buildBins e binType messages;
             sortedKeys = sort (binKeys b);
             totalMessages = length messages;
             avgPer = (of_nat totalMessages :: rat) / of_nat (length sortedKeys);
             firstHalf = slice sortedKeys 0 (length sortedKeys div 2);
             secondHalf = drop (length sortedKeys div 2) sortedKeys;
             firstHalfTotal = sum_list (map (\<lambda>key. binCount b key ''total'') firstHalf);
             secondHalfTotal = sum_list (map (\<lambda>key. binCount b key ''total'') secondHalf)
         in \<lparr>actLabels = map (\<lambda>key. formatBinLabel key binType) sortedKeys,
             actDatasets = map (\<lambda>s. (s, map (\<lambda>key. binCount b key s) sortedKeys)) senders,
             actBinType = Some binType,
             actStatistics = Some
               \<lparr>actTotalMessages = totalMessages,
                avgPerBin = round1 avgPer,
                actTrend = (if (of_nat secondHalfTotal :: rat) > of_nat firstHalfTotal * (12 / 10)
                              then ActIncreasing
                            else if (of_nat secondHalfTotal :: rat) < of_nat firstHalfTotal * (8 / 10)
                              then ActDecreasing
                            else ActStable),
                firstHalfAvg =
                  jsRoundTo 10 (jsDiv (of_nat firstHalfTotal) (of_nat (length firstHalf))),
                secondHalfAvg =
                  jsRoundTo 10 (jsDiv (of_nat secondHalfTotal) (of_nat (length secondHalf)))\<rparr>\<rparr>))"

text \<open>Two messages of a single participant, an hour apart.\<close>

definition oneSenderExample :: "message list" where
  "oneSenderExample =
     [\<lparr>timestamp = 0, sender = ''A'', msgText = ''anyone?''\<rparr>,
      \<lparr>timestamp = 3600000, sender = ''A'', msgText = ''hello?''\<rparr>]"

text \<open>Five messages with one and the same timestamp.\<close>

definition sameTimeExample :: "message list" where
  "sameTimeExample = replicate 5 \<lparr>timestamp = 0, sender = ''A'', msgText = ''hi''\<rparr>"

section \<open>Telegram results and their merge (\<open>scripts/parsers/telegramParser.js\<close>)\<close>

text \<open>
  A message of the Telegram parser. Its \<open>timestamp\<close> is the string \<open>toISOString()\<close> of a
  valid date; every use of it is \<open>new Date(m.timestamp)\<close>, which gives the time value back,
  so the field is modelled as that time value. \<open>extractedDate\<close> is the extra field of the
  main parsing path (\<open>None\<close> for \<open>null\<close> and for the fallback path, which has no such field).
\<close>

record tgMessage = message +
  extractedDate :: "int option"

text \<open>\<open>metadata\<close>: \<open>chatName\<close> is absent in the fallback path, \<open>dateRange\<close> is \<open>null\<close>
  without messages. The constant \<open>format: 'telegram'\<close> is left out.\<close>

record tgMetadata =
  totalMessages :: nat
  participants :: "string list option"
  chatName :: "string option"
  dateRange :: "(int \<times> int) option"

text \<open>A parsed result; \<open>mergeTelegramResults\<close> tolerates a result without \<open>messages\<close> or
  without \<open>metadata\<close>.\<close>

record tgResult =
  tgMessages :: "tgMessage list option"
  tgMeta :: "tgMetadata option"

text \<open>The state of the \<open>forEach\<close> in \<open>mergeTelegramResults\<close>.\<close>

record mergeState =
  allMessages :: "tgMessage list"
  allParticipants :: "string list"
  mergedName :: string

text \<open>The body of the \<open>forEach\<close>; a \<open>null\<close> entry of \<open>results\<close> is \<open>None\<close>.\<close>

definition mergeOne :: "mergeState \<Rightarrow> tgResult option \<Rightarrow> mergeState" where
  "mergeOne st result =
     (case result of
        None \<Rightarrow> st
      | Some r \<Rightarrow>
          (case tgMessages r of
             None \<Rightarrow> st
           | Some ms \<Rightarrow>
               (let ps = (case tgMeta r of
                            None \<Rightarrow> []
                          | Some md \<Rightarrow> (case participants md of None \<Rightarrow> [] | Some ps \<Rightarrow> ps));
                    name = (case tgMeta r of None \<Rightarrow> None | Some md \<Rightarrow> chatName md)
                in \<lparr>allMessages = allMessages st @ ms,
                    allParticipants = foldl setAdd (allParticipants st) ps,
                    mergedName =
                      (case name of
                         Some n \<Rightarrow> if n \<noteq> [] \<and> n \<noteq> ''Telegram Chat'' then n else mergedName st
                       | None \<Rightarrow> mergedName st)\<rparr>)))"

text \<open>\<open>dateRange\<close>: first and last timestamp of the sorted messages, \<open>null\<close> without any.\<close>

definition dateRangeOf :: "tgMessage list \<Rightarrow> (int \<times> int) option" where
  "dateRangeOf ms = (if length ms > 0 then Some (timestamp (hd ms), timestamp (last ms)) else None)"

definition mergeTelegramResults :: "tgResult option list \<Rightarrow> tgResult" where
  "mergeTelegramResults results =
     (let st = foldl mergeOne
                 \<lparr>allMessages = [], allParticipants = [], mergedName = ''Telegram Chat''\<rparr> results;
          sortedMessages = sort_key timestamp (allMessages st)
      in \<lparr>tgMessages = Some sortedMessages,
          tgMeta = Some \<lparr>totalMessages = length sortedMessages,
                         participants = Some (allParticipants st),
                         chatName = Some (mergedName st),
                         dateRange = dateRangeOf sortedMessages\<rparr>\<rparr>)"

text \<open>What a result contributes, read off the body of the loop: its messages, its
  participants and its chat name if that is a non-default name.\<close>

definition resultMessages :: "tgResult option \<Rightarrow> tgMessage list" where
  "resultMessages result =
     (case result of None \<Rightarrow> [] | Some r \<Rightarrow> (case tgMessages r of None \<Rightarrow> [] | Some ms \<Rightarrow> ms))"

definition resultParticipants :: "tgResult option \<Rightarrow> string list" where
  "resultParticipants result =
     (case result of
        None \<Rightarrow> []
      | Some r \<Rightarrow>
          (case tgMessages r of
             None \<Rightarrow> []
           | Some ms \<Rightarrow> (case tgMeta r of
                          None \<Rightarrow> []
                        | Some md \<Rightarrow> (case participants md of None \<Rightarrow> [] | Some ps \<Rightarrow> ps))))"

definition resultName :: "tgResult option \<Rightarrow> string list" where
  "resultName result =
     (case result of
        None \<Rightarrow> []
      | Some r \<Rightarrow>
          (case tgMessages r of
             None \<Rightarrow> []
           | Some ms \<Rightarrow> (case tgMeta r of
                          None \<Rightarrow> []
                        | Some md \<Rightarrow> (case chatName md of
                                       None \<Rightarrow> []
                                     | Some n \<Rightarrow> if n \<noteq> [] \<and> n \<noteq> ''Telegram Chat'' then [n] else []))))"

text \<open>The fields of a merged result.\<close>

definition mergedMessages :: "tgResult \<Rightarrow> tgMessage list" where
  "mergedMessages r = (case tgMessages r of Some ms \<Rightarrow> ms | None \<Rightarrow> [])"

definition mergedParticipants :: "tgResult \<Rightarrow> string list" where
  "mergedParticipants r =
     (case tgMeta r of Some md \<Rightarrow> (case participants md of Some ps \<Rightarrow> ps | None \<Rightarrow> []) | None \<Rightarrow> [])"

definition mergedChatName :: "tgResult \<Rightarrow> string option" where
  "mergedChatName r = (case tgMeta r of Some md \<Rightarrow> chatName md | None \<Rightarrow> None)"

text \<open>Two one-message results of the files of one export, named differently.\<close>

definition fileOne :: tgResult where
  "fileOne =
     \<lparr>tgMessages = Some [\<lparr>timestamp = 1000, sender = ''Ann'', msgText = ''hi'', extractedDate = None\<rparr>],
      tgMeta = Some \<lparr>totalMessages = 1, participants = Some [''Ann''],
                     chatName = Some ''Ann and Bob'', dateRange = Some (1000, 1000)\<rparr>\<rparr>"

definition fileTwo :: tgResult where
  "fileTwo =
     \<lparr>tgMessages = Some [\<lparr>timestamp = 2000, sender = ''Bob'', msgText = ''yo'', extractedDate = None\<rparr>],
      tgMeta = Some \<lparr>totalMessages = 1, participants = Some [''Bob''],
                     chatName = Some ''Chat export'', dateRange = Some (2000, 2000)\<rparr>\<rparr>"

section \<open>Regular expressions, as far as the parsers use them\<close>

text \<open>
  The patterns of the parsers use character classes, greedy repetition of a character
  class, greedy optional groups, capturing groups and the anchors \<open>^\<close> and \<open>$\<close>. A
  backtracking matcher returns every way to match from a position, in the order in which the
  JavaScript engine tries them (greedy first), so that the first full match is the one the
  engine reports.
\<close>

datatype regex =
    Eps
  | Many "char \<Rightarrow> bool" nat "nat option"  \<comment> \<open>a class repeated between min and max times\<close>
  | Seq regex regex
  | Opt regex
  | Group nat regex                         \<comment> \<open>capturing group with its number\<close>
  | Bol
  | Eol

type_synonym captures = "(nat \<times> string) list"

definition lineTerminator :: "char \<Rightarrow> bool" where
  "lineTerminator c = (charCode c = 10 \<or> charCode c = 13)"

text \<open>All matches of a pattern from position \<open>i\<close> of \<open>s\<close>: the end position and the
  captures, most preferred first. \<open>multiline\<close> is the flag \<open>m\<close>.\<close>

fun rmatch :: "regex \<Rightarrow> bool \<Rightarrow> string \<Rightarrow> nat \<times> captures \<Rightarrow> (nat \<times> captures) list" where
  "rmatch Eps multiline s st = [st]"
| "rmatch (Many p lo hi) multiline s (i, caps) =
     (let available = length (takeWhile p (drop i s));
          most = (case hi of None \<Rightarrow> available | Some h \<Rightarrow> min available h)
      in if most < lo then [] else map (\<lambda>k. (i + k, caps)) (rev [lo..<Suc most]))"
| "rmatch (Seq a b) multiline s st = concat (map (rmatch b multiline s) (rmatch a multiline s st))"
| "rmatch (Opt a) multiline s st = rmatch a multiline s st @ [st]"
| "rmatch (Group k a) multiline s (i, caps) =
     map (\<lambda>(j, caps'). (j, (k, slice s i j) # caps')) (rmatch a multiline s (i, caps))"
| "rmatch Bol multiline s (i, caps) =
     (if i = 0 \<or> (multiline \<and> i \<le> length s \<and> lineTerminator (s ! (i - 1))) then [(i, caps)] else [])"
| "rmatch Eol multiline s (i, caps) =
     (if i = length s \<or> (multiline \<and> i < length s \<and> lineTerminator (s ! i)) then [(i, caps)] else [])"

text \<open>The first match starting at one of the given positions.\<close>

fun firstMatchFrom :: "regex \<Rightarrow> bool \<Rightarrow> string \<Rightarrow> nat list \<Rightarrow> captures option" where
  "firstMatchFrom r multiline s [] = None"
| "firstMatchFrom r multiline s (i # rest) =
     (case rmatch r multiline s (i, []) of
        [] \<Rightarrow> firstMatchFrom r multiline s rest
      | (j, caps) # _ \<Rightarrow> Some ((0, slice s i j) # caps))"

text \<open>\<open>s.match(r)\<close> without the flag \<open>g\<close>: the leftmost match, with group 0 the matched
  text; \<open>None\<close> is \<open>null\<close>. \<open>r.test(s)\<close> asks whether there is a match.\<close>

definition regexMatch :: "regex \<Rightarrow> bool \<Rightarrow> string \<Rightarrow> captures option" where
  "regexMatch r multiline s = firstMatchFrom r multiline s [0..<Suc (length s)]"

definition regexTest :: "regex \<Rightarrow> bool \<Rightarrow> string \<Rightarrow> bool" where
  "regexTest r multiline s = (regexMatch r multiline s \<noteq> None)"

text \<open>The text of a group of a match; a group that did not take part is \<open>undefined\<close>.\<close>

definition groupOf :: "captures \<Rightarrow> nat \<Rightarrow> string option" where
  "groupOf caps k = map_of caps k"

text \<open>Building blocks: a sequence of patterns, one character of a class, one given character,
  and a literal word.\<close>

definition seqs :: "regex list \<Rightarrow> regex" where
  "seqs rs = foldr Seq rs Eps"

definition one :: "(char \<Rightarrow> bool) \<Rightarrow> regex" where
  "one p = Many p 1 (Some 1)"

definition lit :: "char \<Rightarrow> regex" where
  "lit c = one (\<lambda>x. x = c)"

definition word :: "string \<Rightarrow> regex" where
  "word w = seqs (map lit w)"

text \<open>String helpers of the parsers: \<open>trim\<close>, \<open>includes\<close>, and \<open>replace\<close> of every
  character of a class by one character.\<close>

definition trim :: "string \<Rightarrow> string" where
  "trim s = rev (dropWhile isSpace (rev (dropWhile isSpace s)))"

fun includesStr :: "string \<Rightarrow> string \<Rightarrow> bool" where
  "includesStr [] sub = (sub = [])"
| "includesStr (c # cs) sub = (take (length sub) (c # cs) = sub \<or> includesStr cs sub)"

definition replaceEach :: "(char \<Rightarrow> bool) \<Rightarrow> char \<Rightarrow> string \<Rightarrow> string" where
  "replaceEach p c s = map (\<lambda>x. if p x then c else x) s"

definition newline :: char where
  "newline = CHR 0x0A"

section \<open>The WhatsApp parser (\<open>scripts/parsers/whatsappParser.js\<close>)\<close>

text \<open>Errors are \<open>Error\<close> objects that differ in their message; each thrown message is a
  constructor.\<close>

datatype parseError =
    UnsupportedFormat        \<comment> \<open>\<open>Unsupported file format. Please upload ...\<close>\<close>
  | NoWhatsAppMessages       \<comment> \<open>\<open>No valid messages found in WhatsApp export. ...\<close>\<close>
  | CsvEmpty                 \<comment> \<open>\<open>CSV file appears to be empty or has no data rows.\<close>\<close>
  | CsvMissingColumns "string list"  \<comment> \<open>\<open>CSV file must have columns for ...\<close>\<close>
  | NoCsvMessages            \<comment> \<open>\<open>No valid messages found in CSV file. ...\<close>\<close>
  | InvalidTimeValue         \<comment> \<open>the \<open>RangeError\<close> of \<open>toISOString\<close> on an invalid date\<close>

text \<open>Character classes of the patterns. The flag \<open>i\<close> makes \<open>[AP]M\<close> match either case.
  The class of dashes also holds the en dash, which lies outside the 8-bit characters of
  the model and so never occurs in a modelled line.\<close>

definition isDash :: "char \<Rightarrow> bool" where
  "isDash c = (c = CHR ''-'')"

definition isTimeSep :: "char \<Rightarrow> bool" where
  "isTimeSep c = (c = CHR '':'' \<or> c = CHR ''.'')"

definition notColon :: "char \<Rightarrow> bool" where
  "notColon c = (c \<noteq> CHR '':'')"

definition anyChar :: "char \<Rightarrow> bool" where
  "anyChar c = (\<not> lineTerminator c)"

definition isAP :: "char \<Rightarrow> bool" where
  "isAP c = (c \<in> set ''APap'')"

definition isM :: "char \<Rightarrow> bool" where
  "isM c = (c \<in> set ''Mm'')"

text \<open>\<open>\d{1,2}\/\d{1,2}\/\d{2,4}\<close> and its variant with dashes.\<close>

definition slashDate :: regex where
  "slashDate = seqs [Many isDigit 1 (Some 2), lit CHR ''/'', Many isDigit 1 (Some 2), lit CHR ''/'',
                     Many isDigit 2 (Some 4)]"

definition dashDate :: regex where
  "dashDate = seqs [Many isDigit 1 (Some 2), lit CHR ''-'', Many isDigit 1 (Some 2), lit CHR ''-'',
                    Many isDigit 2 (Some 4)]"

text \<open>\<open>\d{1,2}[:.]\d{2}(?:[:.]\d{2})?\<close>, and with \<open>(?:\s*[AP]M)?\<close> after it.\<close>

definition clockTime :: regex where
  "clockTime = seqs [Many isDigit 1 (Some 2), one isTimeSep, Many isDigit 2 (Some 2),
                     Opt (seqs [one isTimeSep, Many isDigit 2 (Some 2)])]"

definition clockTimeAmPm :: regex where
  "clockTimeAmPm = seqs [clockTime, Opt (seqs [Many isSpace 0 None, one isAP, one isM])]"

text \<open>\<open>([^:]+):\s*(.*)$\<close>: sender, colon and text, the groups 3 and 4.\<close>

definition senderAndText :: regex where
  "senderAndText = seqs [Group 3 (Many notColon 1 None), lit CHR '':'', Many isSpace 0 None,
                         Group 4 (Many anyChar 0 None), Eol]"

text \<open>The three patterns, in the order of the array \<open>patterns\<close>.\<close>

definition patterns :: "regex list" where
  "patterns =
     [seqs [Bol, Group 1 slashDate, Opt (lit CHR '',''), Many isSpace 1 None, Group 2 clockTimeAmPm,
            Many isSpace 0 None, one isDash, Many isSpace 0 None, senderAndText],
      seqs [Bol, lit CHR ''['', Group 1 slashDate, Opt (lit CHR '',''), Many isSpace 1 None,
            Group 2 clockTimeAmPm, lit CHR '']'', Many isSpace 0 None, senderAndText],
      seqs [Bol, Group 1 dashDate, Many isSpace 1 None, Group 2 clockTime,
            Many isSpace 0 None, one isDash, Many isSpace 0 None, senderAndText]]"

text \<open>The inner loop \<open>for (const pattern of patterns)\<close>: the match of the first pattern that
  matches the trimmed line.\<close>

fun firstPattern :: "regex list \<Rightarrow> string \<Rightarrow> captures option" where
  "firstPattern [] trimmedLine = None"
| "firstPattern (pattern # rest) trimmedLine =
     (case regexMatch pattern False trimmedLine of
        Some caps \<Rightarrow> Some caps
      | None \<Rightarrow> firstPattern rest trimmedLine)"

text \<open>\<open>parseInt\<close> of a string that starts with digits (as the groups of a match do); 0
  stands in for \<open>NaN\<close> on any other string, which no match produces.\<close>

definition parseIntDigits :: "string \<Rightarrow> int" where
  "parseIntDigits s = int (digitsValue (takeWhile isDigit s))"

text \<open>\<open>new Date(year, month, day, hours, minutes, seconds)\<close> in local time: a year from 0 to
  99 means 1900 + year, and months and days outside their range carry over.\<close>

definition makeLocalDate :: "env \<Rightarrow> int \<Rightarrow> int \<Rightarrow> int \<Rightarrow> int \<Rightarrow> int \<Rightarrow> int \<Rightarrow> int" where
  "makeLocalDate e year month day hours minutes seconds =
     (let fullYear = (if 0 \<le> year \<and> year \<le> 99 then 1900 + year else year);
          ym = fullYear + month div 12;
          mn = month mod 12;
          days = daysFromCivil ym (mn + 1) 1 + (day - 1)
      in days * msPerDay + hours * 3600000 + minutes * 60000 + seconds * 1000 - localOffset e)"

text \<open>\<open>parseDateTime\<close>. The three parts of the date always exist for a matched line; a
  missing part reads as the empty string here.\<close>

definition partAt :: "string list \<Rightarrow> nat \<Rightarrow> string" where
  "partAt parts i = (case arrayAt parts i of Some p \<Rightarrow> p | None \<Rightarrow> [])"

definition parseDateTime :: "env \<Rightarrow> string \<Rightarrow> string \<Rightarrow> int" where
  "parseDateTime e dateStr timeStr =
     (let normalizedDate = replaceEach (\<lambda>c. c = CHR ''-'') CHR ''/'' dateStr;
          parts = splitOn CHR ''/'' normalizedDate;
          (day, month, year) =
            (if length (partAt parts 0) = 4 then (partAt parts 2, partAt parts 1, partAt parts 0)
             else if partAt parts 2 \<noteq> [] \<and> length (partAt parts 2) = 4
               then (partAt parts 1, partAt parts 0, partAt parts 2)
             else (partAt parts 1, partAt parts 0,
                   (if parseIntDigits (partAt parts 2) < 50 then ''20'' else ''19'') @ partAt parts 2));
          timeParts = splitOn CHR '':'' (replaceEach isTimeSep CHR '':'' timeStr);
          hours0 = parseIntDigits (partAt timeParts 0);
          minutes = parseIntDigits (partAt timeParts 1);
          seconds = (if partAt timeParts 2 \<noteq> [] then parseIntDigits (partAt timeParts 2) else 0);
          isPM = includesStr (toLowerCase timeStr) ''pm'';
          isAM = includesStr (toLowerCase timeStr) ''am'';
          hours1 = (if isPM \<and> hours0 < 12 then hours0 + 12 else hours0);
          hours = (if isAM \<and> hours1 = 12 then 0 else hours1)
      in makeLocalDate e (parseIntDigits year) (parseIntDigits month - 1) (parseIntDigits day)
           hours minutes seconds)"

definition systemIndicators :: "string list" where
  "systemIndicators =
     [''created group'', ''added you'', ''changed the subject'', ''changed this group'',
      ''left the group'', ''removed'', ''security code changed'',
      ''messages and calls are end-to-end encrypted'', ''you deleted this message'',
      ''this message was deleted'', ''media omitted'', ''<Media omitted>'',
      ''missed voice call'', ''missed video call'', ''joined using this group'']"

definition isSystemMessage :: "string \<Rightarrow> string \<Rightarrow> bool" where
  "isSystemMessage sndr txt =
     (let lowerText = toLowerCase txt;
          lowerSender = toLowerCase sndr
      in if includesStr lowerSender ''system'' \<or> lowerSender = [] then True
         else list_ex (\<lambda>indicator. includesStr lowerText (toLowerCase indicator)) systemIndicators)"

text \<open>The state of the loop over the lines: \<open>messages\<close> and \<open>currentMessage\<close>.\<close>

record waState =
  waMessages :: "message list"
  currentMessage :: "message option"

text \<open>The body of \<open>for (const line of lines)\<close>.\<close>

definition waStep :: "env \<Rightarrow> waState \<Rightarrow> string \<Rightarrow> waState" where
  "waStep e st line =
     (let trimmedLine = trim line
      in if trimmedLine = [] then st
         else
           (case firstPattern patterns trimmedLine of
              Some caps \<Rightarrow>
                (let saved = (case currentMessage st of
                                Some m \<Rightarrow> waMessages st @ [m]
                              | None \<Rightarrow> waMessages st);
                     dateStr = (case groupOf caps 1 of Some g \<Rightarrow> g | None \<Rightarrow> []);
                     timeStr = (case groupOf caps 2 of Some g \<Rightarrow> g | None \<Rightarrow> []);
                     sndr = (case groupOf caps 3 of Some g \<Rightarrow> g | None \<Rightarrow> []);
                     txt = (case groupOf caps 4 of Some g \<Rightarrow> g | None \<Rightarrow> []);
                     ts = parseDateTime e dateStr timeStr
                 in \<lparr>waMessages = saved,
                     currentMessage =
                       (if isSystemMessage sndr txt then None
                        else Some \<lparr>timestamp = ts, sender = trim sndr, msgText = trim txt\<rparr>)\<rparr>)
            | None \<Rightarrow>
                (case currentMessage st of
                   Some m \<Rightarrow>
                     st\<lparr>currentMessage := Some (m\<lparr>msgText := msgText m @ [newline] @ trimmedLine\<rparr>)\<rparr>
                 | None \<Rightarrow> st)))"

definition waLoop :: "env \<Rightarrow> string list \<Rightarrow> waState" where
  "waLoop e lines = foldl (waStep e) \<lparr>waMessages = [], currentMessage = None\<rparr> lines"

text \<open>Metadata of the WhatsApp and CSV results: \<open>dateRange\<close> holds the least and the
  greatest timestamp.\<close>

record metadata =
  metaTotalMessages :: nat
  metaParticipants :: "string list"
  metaStart :: int
  metaEnd :: int

record parsedResult =
  resMessages :: "message list"
  resMetadata :: metadata

text \<open>\<open>Math.min(...xs)\<close> and \<open>Math.max(...xs)\<close> on a non-empty list of time values.\<close>

definition minOf :: "int list \<Rightarrow> int" where
  "minOf xs = foldl min (hd xs) (tl xs)"

definition maxOf :: "int list \<Rightarrow> int" where
  "maxOf xs = foldl max (hd xs) (tl xs)"

definition parseWhatsApp :: "env \<Rightarrow> string \<Rightarrow> parseError + parsedResult" where
  "parseWhatsApp e content =
     (let lines = splitOn newline content;
          st = waLoop e lines;
          collected = (case currentMessage st of
                         Some m \<Rightarrow> waMessages st @ [m]
                       | None \<Rightarrow> waMessages st)
      in if length collected = 0 then Inl NoWhatsAppMessages
         else
           (let sortedMessages = sort_key timestamp collected;
                senders = newSet (map sender sortedMessages);
                timestamps = map timestamp sortedMessages
            in Inr \<lparr>resMessages = sortedMessages,
                    resMetadata = \<lparr>metaTotalMessages = length sortedMessages,
                                    metaParticipants = senders,
                                    metaStart = minOf timestamps,
                                    metaEnd = maxOf timestamps\<rparr>\<rparr>))"

text \<open>An environment in the UTC time zone.\<close>

definition utc :: env where
  "utc = \<lparr>now = 0, localOffset = 0\<rparr>"

text \<open>A loop state in which the message \<open>hello\<close> of Alice is the current message.\<close>

definition helloState :: waState where
  "helloState =
     \<lparr>waMessages = [],
      currentMessage = Some \<lparr>timestamp = 1704103200000, sender = ''Alice'', msgText = ''hello''\<rparr>\<rparr>"

section \<open>The CSV parser (\<open>scripts/parsers/csvParser.js\<close>)\<close>

text \<open>
  A \<open>Date\<close> object, which may be an invalid date. What \<open>new Date(str)\<close> accepts beyond
  the ISO format is left to the engine, so the native parser is a parameter:
  \<open>nativeParse str\<close> is the time value, or \<open>None\<close> for an invalid date.
\<close>

datatype jsDate = ValidDate int | InvalidDate

definition newDateOf :: "(string \<Rightarrow> int option) \<Rightarrow> string \<Rightarrow> jsDate" where
  "newDateOf nativeParse str = (case nativeParse str of Some t \<Rightarrow> ValidDate t | None \<Rightarrow> InvalidDate)"

record csvMessage =
  csvTimestamp :: jsDate
  csvSender :: string
  csvText :: string

text \<open>\<open>parseCSVLine\<close>: the loop over the characters with \<open>values\<close>, \<open>current\<close> and
  \<open>inQuotes\<close>; a doubled quote inside quotes is one quote and skips a character.\<close>

fun csvChars :: "string list \<Rightarrow> string \<Rightarrow> bool \<Rightarrow> string \<Rightarrow> string list" where
  "csvChars values current inQuotes [] = values @ [trim current]"
| "csvChars values current inQuotes (c # rest) =
     (if c = CHR 0x22 then
        (case rest of
           d # rest' \<Rightarrow>
             if inQuotes \<and> d = CHR 0x22 then csvChars values (current @ [CHR 0x22]) inQuotes rest'
             else csvChars values current (\<not> inQuotes) rest
         | [] \<Rightarrow> csvChars values current (\<not> inQuotes) rest)
      else if c = CHR '','' \<and> \<not> inQuotes then csvChars (values @ [trim current]) [] inQuotes rest
      else csvChars values (current @ [c]) inQuotes rest)"

definition parseCSVLine :: "string \<Rightarrow> string list" where
  "parseCSVLine line = csvChars [] [] False line"

text \<open>\<open>header.indexOf(name)\<close>, and \<open>findColumnIndex\<close>: the index of the first of the
  possible names that the header has; \<open>None\<close> is \<open>null\<close>.\<close>

fun indexOf :: "'a list \<Rightarrow> 'a \<Rightarrow> nat option" where
  "indexOf [] x = None"
| "indexOf (y # ys) x = (if y = x then Some 0 else map_option Suc (indexOf ys x))"

fun findColumnIndex :: "string list \<Rightarrow> string list \<Rightarrow> nat option" where
  "findColumnIndex header [] = None"
| "findColumnIndex header (name # names) =
     (case indexOf header name of
        Some index \<Rightarrow> Some index
      | None \<Rightarrow> findColumnIndex header names)"

record columnMap =
  colTimestamp :: "nat option"
  colSender :: "nat option"
  colMessage :: "nat option"

definition mapColumns :: "string list \<Rightarrow> columnMap" where
  "mapColumns header =
     (let lowerHeader = map (\<lambda>h. trim (toLowerCase h)) header
      in \<lparr>colTimestamp = findColumnIndex lowerHeader
             [''timestamp'', ''date'', ''time'', ''datetime'', ''created_at'', ''date_time'', ''sent_at''],
          colSender = findColumnIndex lowerHeader
             [''sender'', ''from'', ''author'', ''user'', ''name'', ''participant'', ''from_user'',
              ''username''],
          colMessage = findColumnIndex lowerHeader
             [''message'', ''text'', ''content'', ''body'', ''message_text'', ''msg'',
              ''message_content'']\<rparr>)"

text \<open>\<open>!index\<close> for an index or \<open>null\<close>: \<open>null\<close> and 0 are both falsy.\<close>

definition falsyIndex :: "nat option \<Rightarrow> bool" where
  "falsyIndex i = (case i of None \<Rightarrow> True | Some n \<Rightarrow> n = 0)"

text \<open>The three fallback formats of \<open>parseTimestamp\<close>; \<open>:?\<close> and \<open>(\d{2})?\<close> are
  optional.\<close>

definition digits :: "nat \<Rightarrow> nat \<Rightarrow> regex" where
  "digits lo hi = Many isDigit lo (Some hi)"

definition clockTail :: "nat \<Rightarrow> regex" where
  "clockTail hourMin =
     seqs [Many isSpace 1 None, Group 4 (digits hourMin 2), lit CHR '':'', Group 5 (digits 2 2),
           Opt (lit CHR '':''), Opt (Group 6 (digits 2 2)), Eol]"

definition timestampFormats :: "regex list" where
  "timestampFormats =
     [seqs [Bol, Group 1 (digits 4 4), lit CHR ''-'', Group 2 (digits 2 2), lit CHR ''-'',
            Group 3 (digits 2 2), clockTail 2],
      seqs [Bol, Group 1 (digits 2 2), lit CHR ''/'', Group 2 (digits 2 2), lit CHR ''/'',
            Group 3 (digits 4 4), clockTail 2],
      seqs [Bol, Group 1 (digits 1 2), lit CHR ''/'', Group 2 (digits 1 2), lit CHR ''/'',
            Group 3 (digits 4 4), clockTail 1]]"

text \<open>\<open>parseTimestamp\<close>: the native date if it is valid; otherwise, for a string in one of
  the formats, \<open>new Date(str)\<close> once more, which is the invalid date again; otherwise
  \<open>null\<close>.\<close>

definition parseTimestamp :: "(string \<Rightarrow> int option) \<Rightarrow> string \<Rightarrow> jsDate option" where
  "parseTimestamp nativeParse str =
     (case newDateOf nativeParse str of
        ValidDate t \<Rightarrow> Some (ValidDate t)
      | InvalidDate \<Rightarrow>
          if list_ex (\<lambda>format. regexMatch format False str \<noteq> None) timestampFormats
          then Some (newDateOf nativeParse str)
          else None)"

text \<open>One data row: the message it contributes, if any.\<close>

definition csvRow :: "(string \<Rightarrow> int option) \<Rightarrow> nat \<Rightarrow> nat \<Rightarrow> nat \<Rightarrow> string \<Rightarrow> csvMessage list" where
  "csvRow nativeParse ts sn ms line =
     (let values = parseCSVLine line
      in if length values < max (max ts sn) ms + 1 then []
         else
           (let timestampStr = values ! ts;
                sndr = values ! sn;
                txt = values ! ms
            in if sndr = [] \<or> txt = [] \<or> timestampStr = [] then []
               else (case parseTimestamp nativeParse timestampStr of
                       Some parsedDate \<Rightarrow>
                         [\<lparr>csvTimestamp = parsedDate, csvSender = trim sndr, csvText = trim txt\<rparr>]
                     | None \<Rightarrow> [])))"

text \<open>
  \<open>messages.sort((a, b) => a.timestamp - b.timestamp)\<close>. With valid dates the comparator is
  consistent and the stable sort orders by time value. With an invalid date the difference
  is \<open>NaN\<close>, the comparator is inconsistent and the order is left to the engine
  (\<open>engineSort\<close>).
\<close>

definition timeValue :: "jsDate \<Rightarrow> int" where
  "timeValue d = (case d of ValidDate t \<Rightarrow> t | InvalidDate \<Rightarrow> 0)"

definition isValidDate :: "jsDate \<Rightarrow> bool" where
  "isValidDate d = (case d of ValidDate t \<Rightarrow> True | InvalidDate \<Rightarrow> False)"

definition csvSort :: "(csvMessage list \<Rightarrow> csvMessage list) \<Rightarrow> csvMessage list \<Rightarrow> csvMessage list" where
  "csvSort engineSort ms =
     (if list_all (\<lambda>m. isValidDate (csvTimestamp m)) ms
      then sort_key (\<lambda>m. timeValue (csvTimestamp m)) ms
      else engineSort ms)"

text \<open>The metadata; \<open>dateRange\<close> is invalid as soon as one timestamp is.\<close>

record csvMetadata =
  csvTotalMessages :: nat
  csvParticipants :: "string list"
  csvDateRange :: "jsDate \<times> jsDate"

record csvResult =
  csvMessages :: "csvMessage list"
  csvMeta :: csvMetadata

definition csvRange :: "csvMessage list \<Rightarrow> jsDate \<times> jsDate" where
  "csvRange ms =
     (if list_all (\<lambda>m. isValidDate (csvTimestamp m)) ms
      then (ValidDate (minOf (map (\<lambda>m. timeValue (csvTimestamp m)) ms)),
            ValidDate (maxOf (map (\<lambda>m. timeValue (csvTimestamp m)) ms)))
      else (InvalidDate, InvalidDate))"

definition parseCSV ::
  "(string \<Rightarrow> int option) \<Rightarrow> (csvMessage list \<Rightarrow> csvMessage list) \<Rightarrow> string
   \<Rightarrow> parseError + csvResult" where
  "parseCSV nativeParse engineSort content =
     (let lines = filter (\<lambda>line. trim line \<noteq> []) (splitOn newline content)
      in if length lines < 2 then Inl CsvEmpty
         else
           (let header = parseCSVLine (hd lines);
                cm = mapColumns header
            in if falsyIndex (colTimestamp cm) \<or> falsyIndex (colSender cm) \<or> falsyIndex (colMessage cm)
               then Inl (CsvMissingColumns header)
               else
                 (case (colTimestamp cm, colSender cm, colMessage cm) of
                    (Some ts, Some sn, Some ms) \<Rightarrow>
                      (let collected = concat (map (csvRow nativeParse ts sn ms) (tl lines))
                       in if length collected = 0 then Inl NoCsvMessages
                          else
                            (let sortedMessages = csvSort engineSort collected
                             in Inr \<lparr>csvMessages = sortedMessages,
                                     csvMeta = \<lparr>csvTotalMessages = length sortedMessages,
                                                 csvParticipants = newSet (map csvSender sortedMessages),
                                                 csvDateRange = csvRange sortedMessages\<rparr>\<rparr>))
                  | _ \<Rightarrow> Inl (CsvMissingColumns header))))"

section \<open>The document tree and its selectors\<close>

text \<open>
  The parser works on the tree that \<open>DOMParser.parseFromString(content, 'text/html')\<close>
  returns; that tree is the input of the model. An element has a tag name, its class
  list, its other attributes and its child nodes.
\<close>

datatype node =
    Element string "string list" "(string \<times> string) list" "node list"
  | TextNode string

fun classesOf :: "node \<Rightarrow> string list" where
  "classesOf (Element tag classes attrs kids) = classes"
| "classesOf (TextNode t) = []"

fun tagOf :: "node \<Rightarrow> string" where
  "tagOf (Element tag classes attrs kids) = tag"
| "tagOf (TextNode t) = []"

fun childNodes :: "node \<Rightarrow> node list" where
  "childNodes (Element tag classes attrs kids) = kids"
| "childNodes (TextNode t) = []"

text \<open>\<open>el.getAttribute(name)\<close>; \<open>None\<close> is \<open>null\<close>.\<close>

fun getAttribute :: "node \<Rightarrow> string \<Rightarrow> string option" where
  "getAttribute (Element tag classes attrs kids) name = map_of attrs name"
| "getAttribute (TextNode t) name = None"

text \<open>\<open>el.textContent\<close>: the text of all descendants, in document order.\<close>

fun textContent :: "node \<Rightarrow> string" and textContents :: "node list \<Rightarrow> string" where
  "textContent (TextNode t) = t"
| "textContent (Element tag classes attrs kids) = textContents kids"
| "textContents [] = []"
| "textContents (k # ks) = textContent k @ textContents ks"

text \<open>\<open>el.children\<close>: the child elements.\<close>

fun isElement :: "node \<Rightarrow> bool" where
  "isElement (Element tag classes attrs kids) = True"
| "isElement (TextNode t) = False"

definition childElements :: "node \<Rightarrow> node list" where
  "childElements el = filter isElement (childNodes el)"

text \<open>An element together with its ancestors, nearest first: selectors with a descendant
  combinator look at the ancestors.\<close>

type_synonym located = "node list \<times> node"

text \<open>The elements of a subtree in document order, each with its ancestors.\<close>

fun elementsOf :: "node list \<Rightarrow> node \<Rightarrow> located list"
  and elementsOfList :: "node list \<Rightarrow> node list \<Rightarrow> located list" where
  "elementsOf anc (TextNode t) = []"
| "elementsOf anc (Element tag classes attrs kids) =
     (anc, Element tag classes attrs kids)
       # elementsOfList (Element tag classes attrs kids # anc) kids"
| "elementsOfList anc [] = []"
| "elementsOfList anc (k # ks) = elementsOf anc k @ elementsOfList anc ks"

text \<open>The descendants of a located element (the element itself is not one of them).\<close>

definition descendantsOf :: "located \<Rightarrow> located list" where
  "descendantsOf le = (case le of (anc, el) \<Rightarrow> elementsOfList (el # anc) (childNodes el))"

text \<open>
  A compound selector: an optional tag name, class names and attribute names that must be
  present (\<open>div\<close>, \<open>.pull_right.date\<close>, \<open>[title]\<close>). A complex selector is a chain of
  compound selectors joined by the descendant combinator, the subject last
  (\<open>.media .title\<close>); a selector list is a list of those, joined by commas.
\<close>

datatype compound = Compound "string option" "string list" "string list"

fun matchesCompound :: "compound \<Rightarrow> node \<Rightarrow> bool" where
  "matchesCompound (Compound tag classes attrs) el =
     (isElement el
      \<and> (case tag of None \<Rightarrow> True | Some t \<Rightarrow> tagOf el = t)
      \<and> list_all (\<lambda>c. c \<in> set (classesOf el)) classes
      \<and> list_all (\<lambda>a. getAttribute el a \<noteq> None) attrs)"

text \<open>The remaining compound selectors of a chain, innermost first, against the ancestors,
  nearest first.\<close>

fun matchesAncestors :: "compound list \<Rightarrow> node list \<Rightarrow> bool" where
  "matchesAncestors [] anc = True"
| "matchesAncestors (c # cs) [] = False"
| "matchesAncestors (c # cs) (a # anc) =
     (if matchesCompound c a then matchesAncestors cs anc else matchesAncestors (c # cs) anc)"

definition matchesComplex :: "compound list \<Rightarrow> located \<Rightarrow> bool" where
  "matchesComplex chain le =
     (case (rev chain, le) of
        ([], _) \<Rightarrow> False
      | (subject # outer, (anc, el)) \<Rightarrow> matchesCompound subject el \<and> matchesAncestors outer anc)"

definition matchesSelector :: "compound list list \<Rightarrow> located \<Rightarrow> bool" where
  "matchesSelector sel le = list_ex (\<lambda>chain. matchesComplex chain le) sel"

text \<open>\<open>el.querySelectorAll(sel)\<close> and \<open>el.querySelector(sel)\<close> on an element, and on the
  document, whose root element can match too.\<close>

definition querySelectorAll :: "located \<Rightarrow> compound list list \<Rightarrow> located list" where
  "querySelectorAll le sel = filter (matchesSelector sel) (descendantsOf le)"

definition querySelector :: "located \<Rightarrow> compound list list \<Rightarrow> located option" where
  "querySelector le sel = (case querySelectorAll le sel of [] \<Rightarrow> None | x # _ \<Rightarrow> Some x)"

definition docQuerySelectorAll :: "node \<Rightarrow> compound list list \<Rightarrow> located list" where
  "docQuerySelectorAll doc sel = filter (matchesSelector sel) (elementsOf [] doc)"

definition docQuerySelector :: "node \<Rightarrow> compound list list \<Rightarrow> located option" where
  "docQuerySelector doc sel = (case docQuerySelectorAll doc sel of [] \<Rightarrow> None | x # _ \<Rightarrow> Some x)"

text \<open>The selectors of the parser.\<close>

definition byClass :: "string \<Rightarrow> compound" where
  "byClass c = Compound None [c] []"

definition selPageHeaderText :: "compound list list" where
  "selPageHeaderText = [[byClass ''page_header'', byClass ''text'']]"

definition selHistory :: "compound list list" where
  "selHistory = [[byClass ''history'']]"

definition selBody :: "compound list list" where
  "selBody = [[byClass ''body'']]"

definition selFromName :: "compound list list" where
  "selFromName = [[byClass ''from_name'']]"

definition selText :: "compound list list" where
  "selText = [[byClass ''text'']]"

definition selMedia :: "compound list list" where
  "selMedia = [[byClass ''media'', byClass ''title''], [byClass ''media'', byClass ''description'']]"

definition selDate :: "compound list list" where
  "selDate = [[Compound None [''pull_right'', ''date''] []], [byClass ''date''],
              [Compound None [] [''title'']]]"

definition selDiv :: "compound list list" where
  "selDiv = [[Compound (Some ''div'') [] []]]"

section \<open>The Telegram parser (\<open>scripts/parsers/telegramParser.js\<close>)\<close>

text \<open>
  The month tables are object literals, so a lookup also finds the properties inherited from
  \<open>Object.prototype\<close>. The key is in lower case; the inherited names in lower case are
  \<open>constructor\<close> and \<open>__proto__\<close>. Such a value is not a number and makes the date
  invalid.
\<close>

datatype monthEntry = MonthIndex nat | InheritedProperty | NoMonth

definition monthTable :: "(string \<times> nat) list" where
  "monthTable =
     [(''january'', 0), (''jan'', 0),
      (''february'', 1), (''feb'', 1), (''februari'', 1),
      (''march'', 2), (''mar'', 2), (''maret'', 2),
      (''april'', 3), (''apr'', 3),
      (''may'', 4), (''mei'', 4),
      (''june'', 5), (''jun'', 5), (''juni'', 5),
      (''july'', 6), (''jul'', 6), (''juli'', 6),
      (''august'', 7), (''aug'', 7), (''agustus'', 7),
      (''september'', 8), (''sep'', 8), (''sept'', 8),
      (''october'', 9), (''oct'', 9), (''oktober'', 9),
      (''november'', 10), (''nov'', 10),
      (''december'', 11), (''dec'', 11), (''desember'', 11)]"

definition lookupMonth :: "(string \<times> nat) list \<Rightarrow> string \<Rightarrow> monthEntry" where
  "lookupMonth table key =
     (case map_of table key of
        Some m \<Rightarrow> MonthIndex m
      | None \<Rightarrow> if key = ''constructor'' \<or> key = ''__proto__'' then InheritedProperty else NoMonth)"

text \<open>\<open>(\d{1,2})\s+(\w+)\s+(\d{4})\<close>, the pattern of \<open>parseDateFromText\<close>.\<close>

definition dayMonthYear :: regex where
  "dayMonthYear = seqs [Group 1 (digits 1 2), Many isSpace 1 None, Group 2 (Many isWordChar 1 None),
                        Many isSpace 1 None, Group 3 (digits 4 4)]"

definition groupText :: "captures \<Rightarrow> nat \<Rightarrow> string" where
  "groupText caps k = (case groupOf caps k of Some g \<Rightarrow> g | None \<Rightarrow> [])"

text \<open>\<open>parseDateFromText\<close>, with the table of that function (it has no \<open>januari\<close>).\<close>

definition parseDateFromText :: "env \<Rightarrow> string \<Rightarrow> jsDate option" where
  "parseDateFromText e txt =
     (case regexMatch dayMonthYear False txt of
        None \<Rightarrow> None
      | Some caps \<Rightarrow>
          (case lookupMonth monthTable (toLowerCase (groupText caps 2)) of
             MonthIndex m \<Rightarrow>
               Some (ValidDate (makeLocalDate e (parseIntDigits (groupText caps 3)) (int m)
                                  (parseIntDigits (groupText caps 1)) 0 0 0))
           | InheritedProperty \<Rightarrow> Some InvalidDate
           | NoMonth \<Rightarrow> None))"

text \<open>The patterns of \<open>parseFullDateTime\<close>:
  \<open>(\d{2})\.(\d{2})\.(\d{4})\s+(\d{2}):(\d{2}):?(\d{2})?\<close> and
  \<open>(\d{1,2})\s+(\w+)\s+(\d{4})\s+(\d{2}):(\d{2})\<close>.\<close>

definition dotFormat :: regex where
  "dotFormat = seqs [Group 1 (digits 2 2), lit CHR ''.'', Group 2 (digits 2 2), lit CHR ''.'',
                     Group 3 (digits 4 4), Many isSpace 1 None, Group 4 (digits 2 2), lit CHR '':'',
                     Group 5 (digits 2 2), Opt (lit CHR '':''), Opt (Group 6 (digits 2 2))]"

definition textMonth :: regex where
  "textMonth = seqs [Group 1 (digits 1 2), Many isSpace 1 None, Group 2 (Many isWordChar 1 None),
                     Many isSpace 1 None, Group 3 (digits 4 4), Many isSpace 1 None,
                     Group 4 (digits 2 2), lit CHR '':'', Group 5 (digits 2 2)]"

text \<open>\<open>getMonthNumber\<close> uses the table with \<open>januari\<close>.\<close>

definition getMonthNumber :: "string \<Rightarrow> monthEntry" where
  "getMonthNumber monthStr = lookupMonth ((''januari'', 0) # monthTable) (toLowerCase monthStr)"

definition parseFullDateTime :: "env \<Rightarrow> (string \<Rightarrow> int option) \<Rightarrow> string \<Rightarrow> jsDate option" where
  "parseFullDateTime e nativeParse dateStr =
     (if dateStr = [] then None
      else
        (case nativeParse dateStr of
           Some t \<Rightarrow> Some (ValidDate t)
         | None \<Rightarrow>
             (case regexMatch dotFormat False dateStr of
                Some caps \<Rightarrow>
                  Some (ValidDate
                    (makeLocalDate e (parseIntDigits (groupText caps 3))
                       (parseIntDigits (groupText caps 2) - 1) (parseIntDigits (groupText caps 1))
                       (parseIntDigits (groupText caps 4)) (parseIntDigits (groupText caps 5))
                       (case groupOf caps 6 of Some sec \<Rightarrow> parseIntDigits sec | None \<Rightarrow> 0)))
              | None \<Rightarrow>
                  (case regexMatch textMonth False dateStr of
                     None \<Rightarrow> None
                   | Some caps \<Rightarrow>
                       (case getMonthNumber (groupText caps 2) of
                          MonthIndex m \<Rightarrow>
                            Some (ValidDate
                              (makeLocalDate e (parseIntDigits (groupText caps 3)) (int m)
                                 (parseIntDigits (groupText caps 1)) (parseIntDigits (groupText caps 4))
                                 (parseIntDigits (groupText caps 5)) 0))
                        | InheritedProperty \<Rightarrow> Some InvalidDate
                        | NoMonth \<Rightarrow> None)))))"

text \<open>\<open>d.setHours(h, m, 0, 0)\<close> on a date: the same local day at that time; an invalid
  date stays invalid.\<close>

definition setHours :: "env \<Rightarrow> jsDate \<Rightarrow> int \<Rightarrow> int \<Rightarrow> jsDate" where
  "setHours e d h m =
     (case d of
        ValidDate t \<Rightarrow> ValidDate (setHoursZero e t + h * 3600000 + m * 60000)
      | InvalidDate \<Rightarrow> InvalidDate)"

text \<open>\<open>(\d{1,2}):(\d{2})\<close>.\<close>

definition hourMinute :: regex where
  "hourMinute = seqs [Group 1 (digits 1 2), lit CHR '':'', Group 2 (digits 2 2)]"

text \<open>\<open>sender.split('\n')[0]\<close>.\<close>

definition firstLine :: "string \<Rightarrow> string" where
  "firstLine s = (case splitOn newline s of l # _ \<Rightarrow> l | [] \<Rightarrow> [])"

text \<open>
  \<open>parseDefaultMessage\<close>. The only exception its body can raise is the \<open>RangeError\<close> of
  \<open>timestamp.toISOString()\<close> on an invalid date, which the \<open>catch\<close> turns into \<open>null\<close>.
\<close>

definition parseDefaultMessage ::
  "env \<Rightarrow> (string \<Rightarrow> int option) \<Rightarrow> located \<Rightarrow> jsDate \<Rightarrow> string option \<Rightarrow> tgMessage option" where
  "parseDefaultMessage e nativeParse el currentDate lastSender =
     (let named = (case querySelector el selFromName of
                     Some fromNameEl \<Rightarrow> Some (trim (textContent (snd fromNameEl)))
                   | None \<Rightarrow> lastSender);
          cleaned = (case named of
                       Some s \<Rightarrow> if s \<noteq> [] then Some (trim (firstLine s)) else Some s
                     | None \<Rightarrow> None)
      in case cleaned of
           None \<Rightarrow> None
         | Some sndr \<Rightarrow>
             if sndr = [] then None
             else
               (let txt0 = (case querySelector el selText of
                              Some textEl \<Rightarrow> trim (textContent (snd textEl))
                            | None \<Rightarrow> []);
                    txt = (if txt0 = [] then
                             (case querySelector el selMedia of
                                Some mediaEl \<Rightarrow> ''[Media: '' @ trim (textContent (snd mediaEl)) @ '']''
                              | None \<Rightarrow> ''[Media]'')
                           else txt0);
                    (stamp, extracted) =
                      (case querySelector el selDate of
                         None \<Rightarrow> (currentDate, None)
                       | Some dateEl \<Rightarrow>
                           (case getAttribute (snd dateEl) ''title'' of
                              Some titleAttr \<Rightarrow>
                                if titleAttr \<noteq> [] then
                                  (case parseFullDateTime e nativeParse titleAttr of
                                     Some parsed \<Rightarrow> (parsed, Some (setHours e parsed 0 0))
                                   | None \<Rightarrow> (currentDate, None))
                                else
                                  (case regexMatch hourMinute False (trim (textContent (snd dateEl))) of
                                     Some caps \<Rightarrow>
                                       (setHours e currentDate (parseIntDigits (groupText caps 1))
                                          (parseIntDigits (groupText caps 2)), None)
                                   | None \<Rightarrow> (currentDate, None))
                            | None \<Rightarrow>
                                (case regexMatch hourMinute False (trim (textContent (snd dateEl))) of
                                   Some caps \<Rightarrow>
                                     (setHours e currentDate (parseIntDigits (groupText caps 1))
                                        (parseIntDigits (groupText caps 2)), None)
                                 | None \<Rightarrow> (currentDate, None))))
                in case stamp of
                     InvalidDate \<Rightarrow> None
                   | ValidDate t \<Rightarrow>
                       Some \<lparr>timestamp = t, sender = sndr, msgText = txt,
                             extractedDate = (case extracted of
                                                Some (ValidDate d) \<Rightarrow> Some d
                                              | _ \<Rightarrow> None)\<rparr>))"

text \<open>The state of the loop over \<open>historyEl.children\<close>.\<close>

record tgState =
  tgCollected :: "tgMessage list"
  tgParticipants :: "string list"
  tgCurrentDate :: jsDate
  tgLastSender :: "string option"

definition hasClass :: "node \<Rightarrow> string \<Rightarrow> bool" where
  "hasClass el c = (c \<in> set (classesOf el))"

text \<open>The body of the loop, for the child \<open>el\<close> of the history container \<open>history\<close>.\<close>

definition tgStep :: "env \<Rightarrow> (string \<Rightarrow> int option) \<Rightarrow> located \<Rightarrow> tgState \<Rightarrow> node \<Rightarrow> tgState" where
  "tgStep e nativeParse history st el =
     (let here = (snd history # fst history, el)
      in if hasClass el ''service'' then
           (let bodyText = (case querySelector here selBody of
                              Some b \<Rightarrow> trim (textContent (snd b))
                            | None \<Rightarrow> [])
            in case parseDateFromText e bodyText of
                 Some dateFromService \<Rightarrow> st\<lparr>tgCurrentDate := dateFromService\<rparr>
               | None \<Rightarrow> st)
         else if hasClass el ''message'' \<and> hasClass el ''default'' then
           (case parseDefaultMessage e nativeParse here (tgCurrentDate st) (tgLastSender st) of
              Some msgData \<Rightarrow>
                \<lparr>tgCollected = tgCollected st @ [msgData],
                 tgParticipants = setAdd (tgParticipants st) (sender msgData),
                 tgCurrentDate = (case extractedDate msgData of
                                    Some d \<Rightarrow> ValidDate d
                                  | None \<Rightarrow> tgCurrentDate st),
                 tgLastSender = Some (sender msgData)\<rparr>
            | None \<Rightarrow> st)
         else st)"

text \<open>The state of \<open>allDivs.forEach\<close> in \<open>parseAlternativeFormat\<close>; \<open>altFailed\<close> records the
  \<open>RangeError\<close> of \<open>currentDate.toISOString()\<close>, which nothing catches.\<close>

record altState =
  altCollected :: "tgMessage list"
  altParticipants :: "string list"
  altCurrentDate :: jsDate
  altFailed :: bool

definition altStep :: "env \<Rightarrow> altState \<Rightarrow> located \<Rightarrow> altState" where
  "altStep e st d =
     (if altFailed st then st
      else
        (let txt = trim (textContent (snd d));
             dateMatch = parseDateFromText e txt
         in if dateMatch \<noteq> None \<and> length txt < 30
            then st\<lparr>altCurrentDate := (case dateMatch of Some dm \<Rightarrow> dm | None \<Rightarrow> altCurrentDate st)\<rparr>
            else
              (case (querySelector d selFromName, querySelector d selText) of
                 (Some fromName, Some textEl) \<Rightarrow>
                   (let sndr = firstLine (trim (textContent (snd fromName)));
                        body = trim (textContent (snd textEl))
                    in if sndr \<noteq> [] \<and> body \<noteq> [] then
                         (case altCurrentDate st of
                            ValidDate t \<Rightarrow>
                              st\<lparr>altCollected := altCollected st
                                     @ [\<lparr>timestamp = t, sender = sndr, msgText = body,
                                          extractedDate = None\<rparr>],
                                  altParticipants := setAdd (altParticipants st) sndr\<rparr>
                          | InvalidDate \<Rightarrow> st\<lparr>altFailed := True\<rparr>)
                       else st)
               | _ \<Rightarrow> st)))"

definition parseAlternativeFormat :: "env \<Rightarrow> node \<Rightarrow> parseError + tgResult" where
  "parseAlternativeFormat e doc =
     (let st = foldl (altStep e)
                 \<lparr>altCollected = [], altParticipants = [], altCurrentDate = ValidDate (now e),
                  altFailed = False\<rparr>
                 (docQuerySelectorAll doc selDiv)
      in if altFailed st then Inl InvalidTimeValue
         else Inr \<lparr>tgMessages = Some (altCollected st),
                   tgMeta = Some \<lparr>totalMessages = length (altCollected st),
                                  participants = Some (altParticipants st),
                                  chatName = None,
                                  dateRange = dateRangeOf (altCollected st)\<rparr>\<rparr>)"

definition parseTelegramExport :: "env \<Rightarrow> (string \<Rightarrow> int option) \<Rightarrow> node \<Rightarrow> parseError + tgResult" where
  "parseTelegramExport e nativeParse doc =
     (let name = (case docQuerySelector doc selPageHeaderText of
                    Some headerEl \<Rightarrow> trim (textContent (snd headerEl))
                  | None \<Rightarrow> ''Telegram Chat'')
      in case docQuerySelector doc selHistory of
           None \<Rightarrow> parseAlternativeFormat e doc
         | Some historyEl \<Rightarrow>
             (let st = foldl (tgStep e nativeParse historyEl)
                         \<lparr>tgCollected = [], tgParticipants = [], tgCurrentDate = ValidDate (now e),
                          tgLastSender = None\<rparr>
                         (childElements (snd historyEl));
                  sortedMessages = sort_key timestamp (tgCollected st)
              in Inr \<lparr>tgMessages = Some sortedMessages,
                      tgMeta = Some \<lparr>totalMessages = length sortedMessages,
                                     participants = Some (tgParticipants st),
                                     chatName = Some name,
                                     dateRange = dateRangeOf sortedMessages\<rparr>\<rparr>))"

section \<open>The parser router (\<open>scripts/parsers/parserRouter.js\<close>)\<close>

datatype fileType = WhatsAppFile | CsvFile | TelegramFile | UnknownFile

text \<open>\<open>isTelegramFormat\<close>: one of the marker strings occurs in the content.\<close>

definition isTelegramFormat :: "string \<Rightarrow> bool" where
  "isTelegramFormat content =
     (includesStr content ''page_wrap'' \<or> includesStr content ''message default''
      \<or> includesStr content (''class='' @ [CHR 0x22] @ ''history'' @ [CHR 0x22])
      \<or> includesStr content ''from_name'' \<or> includesStr content ''Telegram'')"

text \<open>The patterns of \<open>detectFileType\<close>, which carry the flag \<open>m\<close>: \<open>^\<close> matches at the
  start of every line.\<close>

definition whatsappPatterns :: "regex list" where
  "whatsappPatterns =
     [seqs [Bol, Many isDigit 1 (Some 2), lit CHR ''/'', Many isDigit 1 (Some 2), lit CHR ''/'',
            Many isDigit 2 (Some 4), Opt (lit CHR '',''), Many isSpace 1 None,
            Many isDigit 1 (Some 2), one isTimeSep, Many isDigit 2 (Some 2)],
      seqs [Bol, lit CHR ''['', Many isDigit 1 (Some 2), lit CHR ''/'', Many isDigit 1 (Some 2),
            lit CHR ''/'', Many isDigit 2 (Some 4), Opt (lit CHR '',''), Many isSpace 1 None,
            Many isDigit 1 (Some 2), one isTimeSep, Many isDigit 2 (Some 2)],
      seqs [Bol, Many isDigit 1 (Some 2), lit CHR ''-'', Many isDigit 1 (Some 2), lit CHR ''-'',
            Many isDigit 2 (Some 4), Many isSpace 1 None,
            Many isDigit 1 (Some 2), one isTimeSep, Many isDigit 2 (Some 2)]]"

text \<open>\<open>filename.toLowerCase().split('.').pop()\<close>.\<close>

definition extensionOf :: "string \<Rightarrow> string" where
  "extensionOf filename = last (splitOn CHR ''.'' (toLowerCase filename))"

definition detectFileType :: "string \<Rightarrow> string \<Rightarrow> fileType" where
  "detectFileType content filename =
     (let extension = extensionOf filename
      in if extension = ''csv'' then CsvFile
         else if (extension = ''html'' \<or> extension = ''htm'') \<and> isTelegramFormat content
           then TelegramFile
         else if extension = ''txt''
                 \<and> list_ex (\<lambda>pattern. regexTest pattern True content) whatsappPatterns
           then WhatsAppFile
         else UnknownFile)"

text \<open>The result of \<open>parseFile\<close> is the result of the parser it dispatches to.\<close>

datatype fileResult =
    WhatsAppResult parsedResult
  | CsvResult csvResult
  | TelegramResult tgResult

text \<open>\<open>parseFile\<close>. The engine is a parameter: its native date parser, its sort for an
  inconsistent comparator, and its HTML parser (\<open>DOMParser\<close>).\<close>

record engine =
  nativeParse :: "string \<Rightarrow> int option"
  engineSort :: "csvMessage list \<Rightarrow> csvMessage list"
  parseHtml :: "string \<Rightarrow> node"

definition parseFile :: "env \<Rightarrow> engine \<Rightarrow> string \<Rightarrow> string \<Rightarrow> parseError + fileResult" where
  "parseFile e eng content filename =
     (case detectFileType content filename of
        WhatsAppFile \<Rightarrow> map_sum id WhatsAppResult (parseWhatsApp e content)
      | CsvFile \<Rightarrow> map_sum id CsvResult (parseCSV (nativeParse eng) (engineSort eng) content)
      | TelegramFile \<Rightarrow>
          map_sum id TelegramResult (parseTelegramExport e (nativeParse eng) (parseHtml eng content))
      | UnknownFile \<Rightarrow> Inl UnsupportedFormat)"

text \<open>The number of messages of a result.\<close>

definition resultCount :: "fileResult \<Rightarrow> nat" where
  "resultCount r =
     (case r of
        WhatsAppResult p \<Rightarrow> length (resMessages p)
      | CsvResult c \<Rightarrow> length (csvMessages c)
      | TelegramResult t \<Rightarrow> length (mergedMessages t))"

section \<open>Example inputs of the parsers\<close>

text \<open>The messages that the loop of \<open>parseWhatsApp\<close> has collected before the sort, in
  parse order.\<close>

definition waCollected :: "env \<Rightarrow> string \<Rightarrow> message list" where
  "waCollected e content =
     (let st = waLoop e (splitOn newline content)
      in case currentMessage st of Some m \<Rightarrow> waMessages st @ [m] | None \<Rightarrow> waMessages st)"

text \<open>An HTML file with an empty history container, and the tree that an HTML parser makes
  of it.\<close>

definition emptyHistoryHtml :: string where
  "emptyHistoryHtml = ''<html><body><div class='' @ [CHR 0x22] @ ''history'' @ [CHR 0x22]
                       @ ''></div></body></html>''"

definition emptyHistoryDoc :: node where
  "emptyHistoryDoc =
     Element ''html'' [] []
       [Element ''head'' [] [] [],
        Element ''body'' [] [] [Element ''div'' [''history''] [] []]]"

text \<open>A document without a history container: two date headers, the later date first, each
  followed by a message block.\<close>

definition unsortedDoc :: node where
  "unsortedDoc =
     Element ''html'' [] []
       [Element ''head'' [] [] [],
        Element ''body'' [] []
          [Element ''div'' [] [] [TextNode ''3 August 2025''],
           Element ''div'' [''message''] []
             [Element ''div'' [''from_name''] [] [TextNode ''Ann''],
              Element ''div'' [''text''] [] [TextNode ''see you'']],
           Element ''div'' [] [] [TextNode ''1 August 2025''],
           Element ''div'' [''message''] []
             [Element ''div'' [''from_name''] [] [TextNode ''Bob''],
              Element ''div'' [''text''] [] [TextNode ''hello'']]]]"

section \<open>Properties of the shared helpers\<close>

lemma set_newSet_aux: "set (foldl setAdd acc xs) = set acc \<union> set xs"
  by (induction xs arbitrary: acc) (auto simp: setAdd_def)

lemma set_newSet: "set (newSet xs) = set xs"
  by (simp add: newSet_def set_newSet_aux)

lemma distinct_newSet_aux: "distinct acc \<Longrightarrow> distinct (foldl setAdd acc xs)"
  by (induction xs arbitrary: acc) (auto simp: setAdd_def)

lemma distinct_newSet: "distinct (newSet xs)"
  by (simp add: newSet_def distinct_newSet_aux)

lemma set_sortedSenders: "set (sortedSenders ms) = sender ` set ms"
  by (simp add: sortedSenders_def set_newSet)

lemma distinct_sortedSenders: "distinct (sortedSenders ms)"
  by (simp add: sortedSenders_def distinct_newSet)

section \<open>Properties of response timing\<close>

lemma responseOf_cases:
  "responseOf p c = (if sender c \<noteq> sender p \<and> 0 \<le> (of_int (timestamp c - timestamp p) :: rat) / (1000 * 60)
        \<and> (of_int (timestamp c - timestamp p) :: rat) / (1000 * 60) \<le> 1440
     then [\<lparr>rtime = of_int (timestamp c - timestamp p) / (1000 * 60), rtimestamp = timestamp c, rsender = sender c\<rparr>] else [])"
  by (auto simp: responseOf_def Let_def)

lemma responseLoop_sender: "r \<in> set (responseLoop ms) \<Longrightarrow> rsender r \<in> sender ` set ms"
  by (induction ms rule: responseLoop.induct) (auto simp: responseOf_cases split: if_splits)

lemma responseLoop_index:
  "r \<in> set (responseLoop ms) \<Longrightarrow>
   \<exists>i. 1 \<le> i \<and> i < length ms \<and> r \<in> set (responseOf (ms ! (i - 1)) (ms ! i))"
proof (induction ms rule: responseLoop.induct)
  case (1 p c rest)
  from "1.prems" consider "r \<in> set (responseOf p c)" | "r \<in> set (responseLoop (c # rest))"
    by auto
  then show ?case
  proof cases
    case 1
    then have "1 \<le> (1::nat) \<and> 1 < length (p # c # rest) \<and> r \<in> set (responseOf ((p # c # rest) ! (1 - 1)) ((p # c # rest) ! 1))"
      by simp
    then show ?thesis by blast
  next
    case 2
    with "1.IH" obtain i where i: "1 \<le> i" "i < length (c # rest)" "r \<in> set (responseOf ((c # rest) ! (i - 1)) ((c # rest) ! i))"
      by blast
    then have "1 \<le> Suc i \<and> Suc i < length (p # c # rest) \<and> r \<in> set (responseOf ((p # c # rest) ! (Suc i - 1)) ((p # c # rest) ! Suc i))"
      by (cases i) auto
    then show ?thesis by blast
  qed
qed auto

lemma concat_filter_mset:
  "distinct ss \<Longrightarrow> mset (concat (map (\<lambda>s. filter (\<lambda>r. k r = s) R) ss)) = filter_mset (\<lambda>r. k r \<in> set ss) (mset R)"
proof (induction ss)
  case Nil
  then show ?case by simp
next
  case (Cons s ss)
  have "filter_mset (\<lambda>r. k r = s) (mset R) + filter_mset (\<lambda>r. k r \<in> set ss) (mset R)
        = filter_mset (\<lambda>r. k r \<in> set (s # ss)) (mset R)"
    using Cons.prems by (induction R) auto
  with Cons show ?case by simp
qed

lemma filter_mset_all: "(\<And>x. x \<in> set xs \<Longrightarrow> P x) \<Longrightarrow> filter_mset P (mset xs) = mset xs"
  by (induction xs) auto

lemma mset_allResponses: "mset (allResponses ms) = mset (responseLoop ms)"
proof -
  have "filter_mset (\<lambda>r. rsender r \<in> set (sortedSenders ms)) (mset (responseLoop ms)) = mset (responseLoop ms)"
    by (rule filter_mset_all) (auto simp: set_sortedSenders dest: responseLoop_sender)
  then show ?thesis
    unfolding allResponses_def responseTimes_def
    by (simp add: concat_filter_mset [OF distinct_sortedSenders])
qed

lemma length_responseLoop:
  "length (responseLoop ms) = length (filter (isResponsePair ms) [1..<length ms])"
proof (induction ms rule: responseLoop.induct)
  case (1 p c rest)
  have upt: "[1..<length (p # c # rest)] = 1 # map Suc [1..<length (c # rest)]"
    by (simp add: upt_conv_Cons map_Suc_upt del: upt_Suc)
  have shift: "filter (isResponsePair (p # c # rest)) (map Suc [1..<length (c # rest)])
               = map Suc (filter (isResponsePair (c # rest)) [1..<length (c # rest)])"
  proof -
    have pt: "\<And>x. 1 \<le> x \<Longrightarrow> isResponsePair (p # c # rest) (Suc x) = isResponsePair (c # rest) x"
      by (case_tac x) (auto simp: isResponsePair_def)
    have "filter (isResponsePair (p # c # rest) \<circ> Suc) [1..<length (c # rest)]
          = filter (isResponsePair (c # rest)) [1..<length (c # rest)]"
      by (rule filter_cong) (auto simp: pt simp del: upt_Suc)
    then show ?thesis by (simp only: filter_map)
  qed
  have hd: "length (responseOf p c) = (if isResponsePair (p # c # rest) 1 then 1 else 0)"
    by (auto simp: responseOf_cases isResponsePair_def Let_def)
  show ?case
    using "1.IH" by (simp only: responseLoop.simps length_append hd upt filter.simps shift length_map split: if_splits) auto
qed (simp_all)


lemma set_allResponses: "set (allResponses ms) = set (responseLoop ms)"
  using mset_allResponses [of ms] by (metis set_mset_mset)

lemma length_allResponses: "length (allResponses ms) = length (responseLoop ms)"
  using mset_allResponses [of ms] by (metis size_mset)

text \<open>
  Claim C2. Every latency that \<open>analyzeResponseTiming\<close> records (the entries of
  \<open>responseTimes[s]\<close> for every sender \<open>s\<close>, all of which reach \<open>allResponses\<close>) lies
  between 0 and 1440 minutes and comes from a pair of consecutive messages
  \<open>messages[i - 1]\<close>, \<open>messages[i]\<close> whose senders differ, so a same-sender pair never
  contributes a response event; and \<open>totalResponses\<close> is exactly the number of indices
  \<open>i\<close> whose pair changes sender with a minute delta in \<open>[0, 1440]\<close>.
\<close>

theorem response_latency_bounds:
  "(\<forall>r \<in> set (allResponses messages).
      0 \<le> rtime r \<and> rtime r \<le> 1440 \<and>
      (\<exists>i. 1 \<le> i \<and> i < length messages \<and>
           sender (messages ! i) \<noteq> sender (messages ! (i - 1)) \<and>
           rsender r = sender (messages ! i) \<and>
           rtime r = of_int (timestamp (messages ! i) - timestamp (messages ! (i - 1))) / (1000 * 60)))
   \<and> (\<forall>s. \<forall>r \<in> set (responseTimes messages s). r \<in> set (allResponses messages))
   \<and> (2 \<le> length messages \<longrightarrow>
        map_option totalResponses (statistics (analyzeResponseTiming messages))
          = Some (length (filter (isResponsePair messages) [1..<length messages])))"
proof (intro conjI ballI allI impI)
  fix r assume "r \<in> set (allResponses messages)"
  then have "r \<in> set (responseLoop messages)" by (simp add: set_allResponses)
  then obtain i where i: "1 \<le> i" "i < length messages"
      "r \<in> set (responseOf (messages ! (i - 1)) (messages ! i))"
    using responseLoop_index by blast
  from i(3) show "0 \<le> rtime r" "rtime r \<le> 1440"
    by (auto simp: responseOf_cases split: if_splits)
  from i(3) have "sender (messages ! i) \<noteq> sender (messages ! (i - 1)) \<and>
           rsender r = sender (messages ! i) \<and>
           rtime r = of_int (timestamp (messages ! i) - timestamp (messages ! (i - 1))) / (1000 * 60)"
    by (auto simp: responseOf_cases split: if_splits)
  with i(1,2) show "\<exists>i. 1 \<le> i \<and> i < length messages \<and>
           sender (messages ! i) \<noteq> sender (messages ! (i - 1)) \<and>
           rsender r = sender (messages ! i) \<and>
           rtime r = of_int (timestamp (messages ! i) - timestamp (messages ! (i - 1))) / (1000 * 60)"
    by blast
next
  fix s r assume "r \<in> set (responseTimes messages s)"
  then show "r \<in> set (allResponses messages)"
    by (simp add: set_allResponses responseTimes_def)
next
  assume "2 \<le> length messages"
  then show "map_option totalResponses (statistics (analyzeResponseTiming messages))
          = Some (length (filter (isResponsePair messages) [1..<length messages]))"
    by (simp add: analyzeResponseTiming_def Let_def length_allResponses length_responseLoop)
qed

lemma responseLoop_timingExample:
  "responseLoop timingExample = [\<lparr>rtime = 1, rtimestamp = 60000, rsender = ''B''\<rparr>]"
  by (simp add: timingExample_def responseOf_def)

lemma sortedSenders_timingExample: "sortedSenders timingExample = [''A'', ''B'']"
  by (simp add: timingExample_def sortedSenders_def newSet_def setAdd_def)

lemma allResponses_timingExample:
  "allResponses timingExample = [\<lparr>rtime = 1, rtimestamp = 60000, rsender = ''B''\<rparr>]"
  by (simp add: allResponses_def responseTimes_def responseLoop_timingExample sortedSenders_timingExample)

text \<open>
  The statement of C2 at the four-message conversation: one response is recorded (the
  one-minute reply); the same-sender follow-up and the reply after more than a day are not.
\<close>

theorem response_latency_bounds_witness:
  "allResponses timingExample = [\<lparr>rtime = 1, rtimestamp = 60000, rsender = ''B''\<rparr>]
   \<and> list_all (\<lambda>r. 0 \<le> rtime r \<and> rtime r \<le> 1440) (allResponses timingExample)
   \<and> 2 \<le> length timingExample
   \<and> map_option totalResponses (statistics (analyzeResponseTiming timingExample)) = Some 1"
proof -
  have len: "2 \<le> length timingExample" by (simp add: timingExample_def)
  have cnt: "length (filter (isResponsePair timingExample) [1..<length timingExample]) = 1"
    by (simp add: timingExample_def isResponsePair_def upt_conv_Cons)
  from response_latency_bounds [of timingExample] len cnt allResponses_timingExample
  show ?thesis by (simp add: list_all_iff)
qed

section \<open>Properties of initiation balance\<close>






section \<open>Properties of streaks\<close>

lemma dayRuns_Cons_shape:
  "\<exists>r rs. dayRuns (d # ds) = (d # r) # rs"
  by (induction ds arbitrary: d) (auto split: list.splits)

lemma concat_dayRuns: "concat (dayRuns ds) = ds"
proof (induction ds rule: dayRuns.induct)
  case (3 d e rest)
  obtain r rs where "dayRuns (e # rest) = (e # r) # rs"
    using dayRuns_Cons_shape by blast
  with 3 show ?case by auto
qed simp_all

lemma streakLoop_dayRuns:
  "(case streakLoop acc cur start (d # ds) of
      (streaks, cs, start') \<Rightarrow>
        streaks @ [\<lparr>streakStart = start', streakEnd = last (d # ds), streakLength = cs\<rparr>])
   = acc @ (case dayRuns (d # ds) of
              r # rs \<Rightarrow> \<lparr>streakStart = start, streakEnd = last r, streakLength = cur + length r - 1\<rparr>
                         # map streakOfRun rs
            | [] \<Rightarrow> [])"
proof (induction ds arbitrary: acc cur start d)
  case Nil
  then show ?case by simp
next
  case (Cons c rest)
  obtain r rs where shape: "dayRuns (c # rest) = (c # r) # rs"
    using dayRuns_Cons_shape by blast
  show ?case
  proof (cases "diffDays d c = Some 1")
    case True
    then show ?thesis
      using Cons.IH [where acc = acc and cur = "cur + 1" and start = start and d = c] by (simp add: shape)
  next
    case False
    then show ?thesis
      using Cons.IH [where acc = "acc @ [\<lparr>streakStart = start, streakEnd = d, streakLength = cur\<rparr>]" and cur = 1 and start = c and d = c]
      by (simp add: shape streakOfRun_def)
  qed
qed

lemma computeStreaks_dayRuns: "computeStreaks ds = map streakOfRun (dayRuns ds)"
proof (cases ds)
  case Nil
  then show ?thesis by (simp add: computeStreaks_def)
next
  case (Cons d rest)
  obtain r rs where shape: "dayRuns (d # rest) = (d # r) # rs"
    using dayRuns_Cons_shape by blast
  show ?thesis
    using streakLoop_dayRuns [where acc = "[]" and cur = 1 and start = d and d = d and ds = rest]
    by (simp add: Cons computeStreaks_def shape streakOfRun_def)
qed

lemma foldl_max_Max: "foldl max (a::nat) xs = Max (insert a (set xs))"
proof (induction xs arbitrary: a)
  case Nil
  then show ?case by simp
next
  case (Cons x xs)
  have "Max (insert (max a x) (set xs)) = Max (insert a (insert x (set xs)))"
    by (metis List.finite_set Max_insert Max_singleton finite_insert insert_commute insert_not_empty max.assoc)
  with Cons show ?case by simp
qed

lemma mathMax_Max: "xs \<noteq> [] \<Longrightarrow> mathMax xs = Max (set xs)"
proof -
  assume ne: "xs \<noteq> []"
  then have "Max (insert 0 (set xs)) = max 0 (Max (set xs))"
    by (simp add: Max_insert)
  then show ?thesis by (simp add: mathMax_def foldl_max_Max)
qed

lemma length_sortedDatesOf:
  "length (sortedDatesOf ms) = card ((\<lambda>m. toISODate (timestamp m)) ` set ms)"
proof -
  have "distinct (sortedDatesOf ms)"
    by (simp add: sortedDatesOf_def activeDates_def distinct_newSet)
  moreover have "set (sortedDatesOf ms) = (\<lambda>m. toISODate (timestamp m)) ` set ms"
    by (simp add: sortedDatesOf_def activeDates_def set_newSet)
  ultimately show ?thesis by (metis distinct_card)
qed

lemma sortedDatesOf_unique:
  assumes "(\<lambda>m. toISODate (timestamp m)) ` set ms = set ds" "sorted ds" "distinct ds"
  shows "sortedDatesOf ms = ds"
proof -
  have "distinct (sortedDatesOf ms)"
    by (simp add: sortedDatesOf_def activeDates_def distinct_newSet)
  moreover have "set (sortedDatesOf ms) = set ds"
    using assms(1) by (simp add: sortedDatesOf_def activeDates_def set_newSet)
  moreover have "sorted (sortedDatesOf ms)"
    by (simp add: sortedDatesOf_def)
  ultimately show ?thesis
    using assms(2,3) by (metis sorted_distinct_set_unique)
qed

lemma dayRuns_within:
  "r \<in> set (dayRuns ds) \<Longrightarrow> Suc i < length r \<Longrightarrow> diffDays (r ! i) (r ! Suc i) = Some 1"
proof (induction ds arbitrary: r i rule: dayRuns.induct)
  case (3 d e rest)
  obtain r' rs where shape: "dayRuns (e # rest) = (e # r') # rs"
    using dayRuns_Cons_shape by blast
  show ?case
  proof (cases "diffDays d e = Some 1")
    case True
    with "3.prems"(1) shape consider "r = d # e # r'" | "r \<in> set rs" by auto
    then show ?thesis
    proof cases
      case 1
      show ?thesis
      proof (cases i)
        case 0
        with 1 True show ?thesis by simp
      next
        case (Suc j)
        have "e # r' \<in> set (dayRuns (e # rest))" by (simp add: shape)
        moreover have "Suc j < length (e # r')" using "3.prems"(2) 1 Suc by simp
        ultimately have "diffDays ((e # r') ! j) ((e # r') ! Suc j) = Some 1"
          using "3.IH"(1) [OF True] by blast
        with 1 Suc show ?thesis by simp
      qed
    next
      case 2
      then have "r \<in> set (dayRuns (e # rest))" by (simp add: shape)
      with "3.IH"(1) [OF True] "3.prems"(2) show ?thesis by blast
    qed
  next
    case False
    with "3.prems"(1) consider "r = [d]" | "r \<in> set (dayRuns (e # rest))" by auto
    then show ?thesis
    proof cases
      case 1
      with "3.prems"(2) show ?thesis by simp
    next
      case 2
      with "3.IH"(2) [OF False] "3.prems"(2) show ?thesis by blast
    qed
  qed
qed simp_all

lemma dayRuns_between:
  "Suc j < length (dayRuns ds) \<Longrightarrow>
   diffDays (last (dayRuns ds ! j)) (hd (dayRuns ds ! Suc j)) \<noteq> Some 1"
proof (induction ds arbitrary: j rule: dayRuns.induct)
  case (3 d e rest)
  obtain r' rs where shape: "dayRuns (e # rest) = (e # r') # rs"
    using dayRuns_Cons_shape by blast
  show ?case
  proof (cases "diffDays d e = Some 1")
    case True
    then have runs: "dayRuns (d # e # rest) = (d # e # r') # rs" by (simp add: shape)
    from "3.prems" runs have j: "Suc j < length (dayRuns (e # rest))" by (simp add: shape)
    from "3.IH"(1) [OF True j] show ?thesis
      unfolding runs shape by (cases j) simp_all
  next
    case False
    then have runs: "dayRuns (d # e # rest) = [d] # (e # r') # rs" by (simp add: shape)
    show ?thesis
    proof (cases j)
      case 0
      with False show ?thesis unfolding runs by simp
    next
      case (Suc k)
      with "3.prems" runs have k: "Suc k < length (dayRuns (e # rest))" by (simp add: shape)
      from "3.IH"(2) [OF False k] show ?thesis
        unfolding runs shape Suc by simp
    qed
  qed
qed simp_all

lemma dateFromISO_jan:
  "dateFromISO ''2024-01-01'' = Some 1704067200000"
  "dateFromISO ''2024-01-02'' = Some 1704153600000"
  "dateFromISO ''2024-01-03'' = Some 1704240000000"
  "dateFromISO ''2024-01-10'' = Some 1704844800000"
  by (simp_all add: dateFromISO_def digitsValue_def digitValue_def daysFromCivil_def msPerDay_def)

lemma mathRound_div:
  "b > 0 \<Longrightarrow> mathRound (of_int a / of_int b :: rat) = (2 * a + b) div (2 * b)"
proof -
  assume b: "b > 0"
  have "(of_int a :: rat) / of_int b + 1 / 2 = of_int (2 * a + b) / of_int (2 * b)"
    using b by (simp add: field_simps)
  then show ?thesis
    unfolding mathRound_def by (simp only: floor_divide_of_int_eq)
qed

lemma mathRound_of_int: "mathRound (of_int k :: rat) = k"
  by (simp add: mathRound_def floor_eq_iff)

lemma mathRound_numeral:
  "mathRound (numeral n :: rat) = numeral n" "mathRound (1 :: rat) = 1" "mathRound (0 :: rat) = 0"
  using mathRound_of_int [of "numeral n"] mathRound_of_int [of 1] mathRound_of_int [of 0] by simp_all

lemma diffDays_jan:
  "diffDays ''2024-01-01'' ''2024-01-02'' = Some 1"
  "diffDays ''2024-01-02'' ''2024-01-03'' = Some 1"
  "diffDays ''2024-01-03'' ''2024-01-10'' = Some 7"
  by (simp_all add: diffDays_def dateFromISO_jan mathRound_numeral msPerDay_def)

lemma dayRuns_jan:
  "dayRuns janDates = [[''2024-01-01'', ''2024-01-02'', ''2024-01-03''], [''2024-01-10'']]"
  by (simp add: janDates_def diffDays_jan)

lemma sorted_jan: "sorted janDates \<and> distinct janDates"
  by (simp add: janDates_def)

lemma sortedDatesOf_ne: "messages \<noteq> [] \<Longrightarrow> sortedDatesOf messages \<noteq> []"
proof -
  assume "messages \<noteq> []"
  then have "set (sortedDatesOf messages) \<noteq> {}"
    by (simp add: sortedDatesOf_def activeDates_def set_newSet)
  then show ?thesis by auto
qed

lemma analyzeStreaks_fields:
  assumes "messages \<noteq> []"
  shows "totalActiveDays (analyzeStreaks e messages) = length (sortedDatesOf messages)"
    and "longestStreak (analyzeStreaks e messages)
         = mathMax (map streakLength (computeStreaks (sortedDatesOf messages)))"
proof -
  have len: "length (sortedDatesOf messages) \<noteq> 0"
    using sortedDatesOf_ne [OF assms] by simp
  show "totalActiveDays (analyzeStreaks e messages) = length (sortedDatesOf messages)"
    using assms len unfolding analyzeStreaks_def Let_def by (simp add: split_beta)
  show "longestStreak (analyzeStreaks e messages)
         = mathMax (map streakLength (computeStreaks (sortedDatesOf messages)))"
    using assms len unfolding analyzeStreaks_def Let_def by (simp add: split_beta)
qed

lemma dayRuns_ne: "ds \<noteq> [] \<Longrightarrow> dayRuns ds \<noteq> []"
proof (cases ds)
  case (Cons d rest)
  obtain r rs where "dayRuns (d # rest) = (d # r) # rs"
    using dayRuns_Cons_shape by blast
  with Cons show ?thesis by simp
qed simp

lemma longest_jan: "mathMax (map streakLength (computeStreaks janDates)) = 3"
  by (simp add: computeStreaks_dayRuns dayRuns_jan streakOfRun_def mathMax_def)

text \<open>
  Claim C7. \<open>analyzeStreaks\<close> collapses the messages to their unique calendar dates
  (\<open>totalActiveDays\<close> is the number of distinct dates), and the streaks its loop builds over
  the sorted dates are exactly the maximal runs of consecutive days (\<open>dayRuns\<close>: a gap of
  exactly one day extends a run, any other gap closes it), with \<open>longestStreak\<close> the
  maximum run length. For every message list whose active dates are 2024-01-01, 2024-01-02,
  2024-01-03 and 2024-01-10 it returns \<open>longestStreak = 3\<close> and \<open>totalActiveDays = 4\<close>.
\<close>

theorem streak_runs:
  "(messages \<noteq> [] \<longrightarrow>
      totalActiveDays (analyzeStreaks e messages) = card ((\<lambda>m. toISODate (timestamp m)) ` set messages)
      \<and> computeStreaks (sortedDatesOf messages) = map streakOfRun (dayRuns (sortedDatesOf messages))
      \<and> longestStreak (analyzeStreaks e messages) = Max (length ` set (dayRuns (sortedDatesOf messages))))
   \<and> ((\<lambda>m. toISODate (timestamp m)) ` set messages
          = {''2024-01-01'', ''2024-01-02'', ''2024-01-03'', ''2024-01-10''} \<longrightarrow>
        longestStreak (analyzeStreaks e messages) = 3 \<and> totalActiveDays (analyzeStreaks e messages) = 4)"
proof (intro conjI impI)
  assume ne: "messages \<noteq> []"
  show "totalActiveDays (analyzeStreaks e messages)
               = card ((\<lambda>m. toISODate (timestamp m)) ` set messages)"
    by (simp only: analyzeStreaks_fields(1) [OF ne] length_sortedDatesOf)
  show "computeStreaks (sortedDatesOf messages) = map streakOfRun (dayRuns (sortedDatesOf messages))"
    by (rule computeStreaks_dayRuns)
  have runs_ne: "map length (dayRuns (sortedDatesOf messages)) \<noteq> []"
    using dayRuns_ne [OF sortedDatesOf_ne [OF ne]] by simp
  have "longestStreak (analyzeStreaks e messages)
        = mathMax (map streakLength (computeStreaks (sortedDatesOf messages)))"
    by (rule analyzeStreaks_fields(2) [OF ne])
  also have "\<dots> = mathMax (map length (dayRuns (sortedDatesOf messages)))"
    by (simp add: computeStreaks_dayRuns streakOfRun_def comp_def)
  also have "\<dots> = Max (set (map length (dayRuns (sortedDatesOf messages))))"
    by (rule mathMax_Max [OF runs_ne])
  finally show "longestStreak (analyzeStreaks e messages)
                = Max (length ` set (dayRuns (sortedDatesOf messages)))"
    by simp
next
  assume dates: "(\<lambda>m. toISODate (timestamp m)) ` set messages
          = {''2024-01-01'', ''2024-01-02'', ''2024-01-03'', ''2024-01-10''}"
  have "set janDates = {''2024-01-01'', ''2024-01-02'', ''2024-01-03'', ''2024-01-10''}"
    unfolding janDates_def by simp
  with dates have set_eq: "(\<lambda>m. toISODate (timestamp m)) ` set messages = set janDates"
    by simp
  have sd: "sortedDatesOf messages = janDates"
    by (rule sortedDatesOf_unique [OF set_eq conjunct1 [OF sorted_jan] conjunct2 [OF sorted_jan]])
  have ne: "messages \<noteq> []"
  proof
    assume "messages = []"
    then have "set janDates = {}" using set_eq by simp
    then show False by (simp add: janDates_def)
  qed
  have len: "length janDates = 4" by (simp add: janDates_def)
  show "longestStreak (analyzeStreaks e messages) = 3"
    by (simp only: analyzeStreaks_fields(2) [OF ne] sd longest_jan)
  show "totalActiveDays (analyzeStreaks e messages) = 4"
    by (simp only: analyzeStreaks_fields(1) [OF ne] sd len)
qed

lemma toISODate_example:
  "toISODate 1704110400000 = ''2024-01-01''"
  "toISODate 1704114000000 = ''2024-01-01''"
  "toISODate 1704196800000 = ''2024-01-02''"
  "toISODate 1704283200000 = ''2024-01-03''"
  "toISODate 1704888000000 = ''2024-01-10''"
  by code_simp+

lemma active_streakExample:
  "(\<lambda>m. toISODate (timestamp m)) ` set streakExample
     = {''2024-01-01'', ''2024-01-02'', ''2024-01-03'', ''2024-01-10''}"
  by (simp add: streakExample_def toISODate_example)

lemma streakExample_ne: "streakExample \<noteq> []"
  by (simp add: streakExample_def)

text \<open>
  C7 at the five-message example: it is non-empty and its active dates are the four dates of
  the claim, so both parts of the theorem apply.
\<close>

theorem streak_runs_witness:
  "streakExample \<noteq> []
   \<and> (\<lambda>m. toISODate (timestamp m)) ` set streakExample
        = {''2024-01-01'', ''2024-01-02'', ''2024-01-03'', ''2024-01-10''}
   \<and> longestStreak (analyzeStreaks \<lparr>now = 1704888000000, localOffset = 0\<rparr> streakExample) = 3
   \<and> totalActiveDays (analyzeStreaks \<lparr>now = 1704888000000, localOffset = 0\<rparr> streakExample) = 4
   \<and> card ((\<lambda>m. toISODate (timestamp m)) ` set streakExample) = 4"
proof -
  let ?e = "\<lparr>now = 1704888000000, localOffset = 0\<rparr>"
  note inst = streak_runs [of streakExample ?e]
  from inst have general:
    "totalActiveDays (analyzeStreaks ?e streakExample)
       = card ((\<lambda>m. toISODate (timestamp m)) ` set streakExample)"
    using streakExample_ne by blast
  from inst have concrete:
    "longestStreak (analyzeStreaks ?e streakExample) = 3
     \<and> totalActiveDays (analyzeStreaks ?e streakExample) = 4"
    using active_streakExample by blast
  from general concrete have "card ((\<lambda>m. toISODate (timestamp m)) ` set streakExample) = 4"
    by simp
  with concrete streakExample_ne active_streakExample show ?thesis by blast
qed








section \<open>Minimum-input thresholds\<close>

text \<open>
  Claim C10. Below their minimum input sizes the analyzers return their empty-shaped result
  even though messages are present: \<open>analyzeConversationRhythm\<close> returns
  \<open>insufficient_data\<close> with confidence 0 for fewer than 5 messages,
  \<open>analyzeLexicalDiversity\<close> the empty result for fewer than 10, and
  \<open>analyzeResponseTiming\<close> and \<open>analyzeInitiationBalance\<close> the empty result for fewer
  than 2.
\<close>

theorem minimum_input_thresholds:
  "(length messages < 5 \<longrightarrow>
      analyzeConversationRhythm messages
        = \<lparr>rhythm = InsufficientData, confidence = Num 0, details = None\<rparr>)
   \<and> (length messages < 10 \<longrightarrow>
      analyzeLexicalDiversity messages = \<lparr>lexLabels = [], lexDatasets = [], lexStats = None\<rparr>)
   \<and> (length messages < 2 \<longrightarrow>
      analyzeResponseTiming messages = \<lparr>labels = [], datasets = [], statistics = None\<rparr>
      \<and> analyzeInitiationBalance messages
          = \<lparr>initLabels = [], initData = [], initStatistics = None\<rparr>)"
  by (simp add: analyzeConversationRhythm_def analyzeLexicalDiversity_def
        analyzeResponseTiming_def analyzeInitiationBalance_def)

text \<open>
  C10 at a one-message conversation (below the threshold of 2) and at the four-message
  conversation (below the thresholds of 5 and 10).
\<close>

theorem minimum_input_thresholds_witness:
  "length singleMessage = 1
   \<and> analyzeResponseTiming singleMessage = \<lparr>labels = [], datasets = [], statistics = None\<rparr>
   \<and> analyzeInitiationBalance singleMessage
        = \<lparr>initLabels = [], initData = [], initStatistics = None\<rparr>
   \<and> length timingExample = 4
   \<and> analyzeConversationRhythm timingExample
        = \<lparr>rhythm = InsufficientData, confidence = Num 0, details = None\<rparr>
   \<and> analyzeLexicalDiversity timingExample
        = \<lparr>lexLabels = [], lexDatasets = [], lexStats = None\<rparr>"
proof -
  have l1: "length singleMessage = 1" by (simp add: singleMessage_def)
  have l4: "length timingExample = 4" by (simp add: timingExample_def)
  from minimum_input_thresholds [of singleMessage] minimum_input_thresholds [of timingExample] l1 l4
  show ?thesis by simp
qed

text \<open>The thresholds are exact: at the threshold the full result is produced.\<close>

lemma rhythm_at_threshold:
  "5 \<le> length messages \<Longrightarrow>
   rhythm (analyzeConversationRhythm messages) \<noteq> InsufficientData
   \<and> details (analyzeConversationRhythm messages) \<noteq> None"
  by (simp add: analyzeConversationRhythm_def classifyRhythm_def Let_def split_beta)

lemma results_at_threshold:
  "(10 \<le> length messages \<longrightarrow> lexStats (analyzeLexicalDiversity messages) \<noteq> None)
   \<and> (2 \<le> length messages \<longrightarrow> statistics (analyzeResponseTiming messages) \<noteq> None
        \<and> initStatistics (analyzeInitiationBalance messages) \<noteq> None)"
  by (simp add: analyzeLexicalDiversity_def analyzeResponseTiming_def analyzeInitiationBalance_def Let_def)

section \<open>Divisions that are not guarded\<close>

lemma buildBins_single:
  "binKeys (buildBins e k [m]) = [getBinKey e (timestamp m) k]"
  by (simp add: buildBins_def addToBin_def Let_def)

lemma activity_single:
  "map_option firstHalfAvg (actStatistics (analyzeMessageActivity e [m])) = Some NaN"
  by (simp add: analyzeMessageActivity_def Let_def buildBins_single slice_def jsDiv_def
        jsRoundTo_def jsTimes_def jsRound_def jsOver_def)

lemma sortedSenders_oneSender: "sortedSenders oneSenderExample = [''A'']"
  by (simp add: oneSenderExample_def sortedSenders_def newSet_def setAdd_def)

lemma initiation_oneSender:
  "map_option difference (initStatistics (analyzeInitiationBalance oneSenderExample)) = Some NaN"
proof -
  have len: "\<not> length oneSenderExample < 2" by (simp add: oneSenderExample_def)
  show ?thesis
    unfolding analyzeInitiationBalance_def Let_def sortedSenders_oneSender
    using len by (simp add: percentDiff_def arrayAt_def propertyKey_def)
qed

lemma gaps_sameTime: "gapsOf sameTimeExample = [0, 0, 0, 0]"
  by (simp add: sameTimeExample_def numeral_eq_Suc)

lemma rhythm_sameTime:
  "map_option variabilityCoefficient (details (analyzeConversationRhythm sameTimeExample)) = Some NaN"
proof -
  have len: "\<not> length sameTimeExample < 5" by (simp add: sameTimeExample_def)
  show ?thesis
    unfolding analyzeConversationRhythm_def Let_def gaps_sameTime
    using len by (simp add: split_beta sumBy_def jsDiv_def jsRoundTo_def jsTimes_def jsRound_def jsOver_def)
qed

text \<open>
  Claim C8 says that no result field is \<open>NaN\<close> or infinite for a non-empty message list.
  The source divides without a guard in three places, and each gives \<open>NaN\<close>:
  \<open>analyzeMessageActivity\<close> on any single message has one bin, so \<open>firstHalf\<close> is empty and
  \<open>firstHalfAvg\<close> is \<open>0 / 0\<close>; \<open>analyzeInitiationBalance\<close> on a single participant reads
  \<open>percentages[senders[1]]\<close>, which is \<open>undefined\<close>, so \<open>difference\<close> is \<open>NaN\<close>;
  \<open>analyzeConversationRhythm\<close> on five simultaneous messages has \<open>avgGap = 0\<close>, so
  \<open>cv = stdDev / avgGap\<close> is \<open>0 / 0\<close>.
\<close>

theorem unguarded_divisions_give_nan:
  "map_option firstHalfAvg (actStatistics (analyzeMessageActivity e [m])) = Some NaN
   \<and> map_option difference (initStatistics (analyzeInitiationBalance oneSenderExample)) = Some NaN
   \<and> map_option variabilityCoefficient (details (analyzeConversationRhythm sameTimeExample))
       = Some NaN"
  by (simp only: activity_single initiation_oneSender rhythm_sameTime)

section \<open>Properties of the Telegram merge\<close>

lemma mergeOne_eq:
  "mergeOne st r =
     \<lparr>allMessages = allMessages st @ resultMessages r,
      allParticipants = foldl setAdd (allParticipants st) (resultParticipants r),
      mergedName = last (mergedName st # resultName r)\<rparr>"
proof (cases r)
  case None
  then show ?thesis
    by (simp add: mergeOne_def resultMessages_def resultParticipants_def resultName_def)
next
  case (Some res)
  show ?thesis
  proof (cases "tgMessages res")
    case None
    with Some show ?thesis
      by (simp add: mergeOne_def resultMessages_def resultParticipants_def resultName_def)
  next
    case ms: (Some ms)
    show ?thesis
    proof (cases "tgMeta res")
      case None
      with Some ms show ?thesis
        by (simp add: mergeOne_def resultMessages_def resultParticipants_def resultName_def)
    next
      case md: (Some md)
      show ?thesis
      proof (cases "chatName md")
        case None
        with Some ms md show ?thesis
          by (simp add: mergeOne_def resultMessages_def resultParticipants_def resultName_def)
      next
        case (Some n)
        with \<open>r = Some res\<close> ms md show ?thesis
          by (simp add: mergeOne_def resultMessages_def resultParticipants_def resultName_def)
      qed
    qed
  qed
qed

lemma last_last: "last (last (d # xs) # ys) = last (d # xs @ ys)"
  by (cases ys) simp_all

lemma foldl_mergeOne:
  "foldl mergeOne st rs =
     \<lparr>allMessages = allMessages st @ concat (map resultMessages rs),
      allParticipants = foldl setAdd (allParticipants st) (concat (map resultParticipants rs)),
      mergedName = last (mergedName st # concat (map resultName rs))\<rparr>"
proof (induction rs arbitrary: st)
  case Nil
  then show ?case by simp
next
  case (Cons r rs)
  show ?case
    unfolding foldl_Cons Cons.IH mergeOne_eq [of st r]
    by (simp add: last_last del: last.simps)
qed

lemma merged_fields:
  "mergedMessages (mergeTelegramResults rs) = sort_key timestamp (concat (map resultMessages rs))"
  "mergedParticipants (mergeTelegramResults rs) = newSet (concat (map resultParticipants rs))"
  "mergedChatName (mergeTelegramResults rs)
     = Some (last (''Telegram Chat'' # concat (map resultName rs)))"
  by (simp_all add: mergeTelegramResults_def mergedMessages_def mergedParticipants_def
        mergedChatName_def foldl_mergeOne Let_def newSet_def del: last.simps)

lemma mset_concat_map:
  "mset (concat (map f xs)) = (\<Sum>x\<in>#mset xs. mset (f x))"
  by (induction xs) simp_all

lemma set_concat_map_perm:
  "mset xs = mset ys \<Longrightarrow> set (concat (map f xs)) = set (concat (map f ys))"
proof -
  assume "mset xs = mset ys"
  then have "set xs = set ys" by (rule mset_eq_setD)
  then show ?thesis by simp
qed

lemma resultMessages_merge:
  "resultMessages (Some (mergeTelegramResults rs)) = mergedMessages (mergeTelegramResults rs)"
  by (simp add: resultMessages_def mergedMessages_def mergeTelegramResults_def Let_def)

lemma resultParticipants_merge:
  "resultParticipants (Some (mergeTelegramResults rs)) = mergedParticipants (mergeTelegramResults rs)"
  by (simp add: resultParticipants_def mergedParticipants_def mergeTelegramResults_def Let_def)

text \<open>
  Claim C9 as amended. For \<open>mergeTelegramResults\<close> the multiset of merged messages and
  the set of merged participants do not depend on the order of the supplied results, merging
  merged results gives the same messages and participants as merging all results at once,
  and the merged messages are sorted by timestamp. The merged \<open>chatName\<close> is the last
  non-default chat name in the supplied order (every non-default name overwrites the one
  before), or \<open>Telegram Chat\<close> when there is none.
\<close>

theorem merge_order_independent:
  "(mset results = mset results' \<longrightarrow>
      mset (mergedMessages (mergeTelegramResults results))
        = mset (mergedMessages (mergeTelegramResults results'))
      \<and> set (mergedParticipants (mergeTelegramResults results))
        = set (mergedParticipants (mergeTelegramResults results')))
   \<and> mset (mergedMessages (mergeTelegramResults
              [Some (mergeTelegramResults xs), Some (mergeTelegramResults ys)]))
       = mset (mergedMessages (mergeTelegramResults (xs @ ys)))
   \<and> set (mergedParticipants (mergeTelegramResults
              [Some (mergeTelegramResults xs), Some (mergeTelegramResults ys)]))
       = set (mergedParticipants (mergeTelegramResults (xs @ ys)))
   \<and> sorted (map timestamp (mergedMessages (mergeTelegramResults results)))
   \<and> mergedChatName (mergeTelegramResults results)
       = Some (last (''Telegram Chat'' # concat (map resultName results)))"
proof (intro conjI impI)
  assume perm: "mset results = mset results'"
  show "mset (mergedMessages (mergeTelegramResults results))
        = mset (mergedMessages (mergeTelegramResults results'))"
    by (simp add: merged_fields mset_concat_map perm)
  show "set (mergedParticipants (mergeTelegramResults results))
        = set (mergedParticipants (mergeTelegramResults results'))"
    using set_concat_map_perm [OF perm] by (simp only: merged_fields set_newSet)
next
  show "mset (mergedMessages (mergeTelegramResults
              [Some (mergeTelegramResults xs), Some (mergeTelegramResults ys)]))
       = mset (mergedMessages (mergeTelegramResults (xs @ ys)))"
    by (simp add: merged_fields(1) [of "[_, _]"] resultMessages_merge)
       (simp add: merged_fields)
  show "set (mergedParticipants (mergeTelegramResults
              [Some (mergeTelegramResults xs), Some (mergeTelegramResults ys)]))
       = set (mergedParticipants (mergeTelegramResults (xs @ ys)))"
    by (simp add: merged_fields(2) [of "[_, _]"] resultParticipants_merge set_newSet)
       (simp add: merged_fields set_newSet)
  show "sorted (map timestamp (mergedMessages (mergeTelegramResults results)))"
    by (simp add: merged_fields)
  show "mergedChatName (mergeTelegramResults results)
       = Some (last (''Telegram Chat'' # concat (map resultName results)))"
    by (rule merged_fields)
qed

lemma names_files:
  "concat (map resultName [Some fileOne, Some fileTwo]) = [''Ann and Bob'', ''Chat export'']"
  by (simp add: resultName_def fileOne_def fileTwo_def)

text \<open>
  Claim C9 says that the merged chat name is the first non-default name encountered. For
  two files named \<open>Ann and Bob\<close> and \<open>Chat export\<close>, in this order, the first non-default
  name is \<open>Ann and Bob\<close> and the merged name is \<open>Chat export\<close>.
\<close>

theorem merge_chat_name_counterexample:
  "hd (concat (map resultName [Some fileOne, Some fileTwo])) = ''Ann and Bob''
   \<and> mergedChatName (mergeTelegramResults [Some fileOne, Some fileTwo]) = Some ''Chat export''"
  unfolding merged_fields names_files by simp

text \<open>
  The amended C9 at the two files in both orders: the orders are permutations of each other,
  the messages and participants agree, and the name follows the last file.
\<close>

theorem merge_order_independent_witness:
  "mset [Some fileOne, Some fileTwo] = mset [Some fileTwo, Some fileOne]
   \<and> mset (mergedMessages (mergeTelegramResults [Some fileOne, Some fileTwo]))
       = mset (mergedMessages (mergeTelegramResults [Some fileTwo, Some fileOne]))
   \<and> set (mergedParticipants (mergeTelegramResults [Some fileOne, Some fileTwo]))
       = set (mergedParticipants (mergeTelegramResults [Some fileTwo, Some fileOne]))
   \<and> mergedChatName (mergeTelegramResults [Some fileTwo, Some fileOne]) = Some ''Ann and Bob''"
proof -
  have perm: "mset [Some fileOne, Some fileTwo] = mset [Some fileTwo, Some fileOne]"
    by (metis add_mset_commute mset.simps(2))
  have names: "concat (map resultName [Some fileTwo, Some fileOne]) = [''Chat export'', ''Ann and Bob'']"
    by (simp add: resultName_def fileOne_def fileTwo_def)
  note a = merge_order_independent [of "[Some fileOne, Some fileTwo]" "[Some fileTwo, Some fileOne]"]
  note b = merge_order_independent [of "[Some fileTwo, Some fileOne]"]
  from a perm have 1: "mset (mergedMessages (mergeTelegramResults [Some fileOne, Some fileTwo]))
       = mset (mergedMessages (mergeTelegramResults [Some fileTwo, Some fileOne]))
   \<and> set (mergedParticipants (mergeTelegramResults [Some fileOne, Some fileTwo]))
       = set (mergedParticipants (mergeTelegramResults [Some fileTwo, Some fileOne]))"
    by blast
  from b have "mergedChatName (mergeTelegramResults [Some fileTwo, Some fileOne])
       = Some (last (''Telegram Chat'' # concat (map resultName [Some fileTwo, Some fileOne])))"
    by blast
  then have 2: "mergedChatName (mergeTelegramResults [Some fileTwo, Some fileOne]) = Some ''Ann and Bob''"
    unfolding names by simp
  from perm 1 2 show ?thesis by blast
qed

section \<open>Properties of the WhatsApp parser\<close>

lemma trim_blank: "trim ''   '' = []"
  by (simp add: trim_def isSpace_def charCode_def)

lemma trim_more: "trim ''  more text  '' = ''more text''"
  by (simp add: trim_def isSpace_def charCode_def)

lemma no_pattern_more: "firstPattern patterns ''more text'' = None"
  by code_simp

lemma no_pattern_padded: "firstPattern patterns ''  more text  '' = None"
  by code_simp

lemma no_pattern_blank: "firstPattern patterns ''   '' = None"
  by code_simp

text \<open>
  Claim C5 as amended. In the loop of \<open>parseWhatsApp\<close>, for every input line that is not
  empty after trimming and whose trimmed form matches none of the date-line patterns, while a
  current message exists, the trimmed line is appended with a newline separator to the text of
  that message, which strictly increases the length of the text, and no message entry is
  created. A line of white space only is skipped and changes nothing.
\<close>

theorem continuation_line_appended:
  "(trim line \<noteq> [] \<and> firstPattern patterns (trim line) = None \<and> currentMessage st = Some m \<longrightarrow>
      waStep e st line
        = st\<lparr>currentMessage := Some (m\<lparr>msgText := msgText m @ [newline] @ trim line\<rparr>)\<rparr>
      \<and> length (msgText m @ [newline] @ trim line) > length (msgText m)
      \<and> waMessages (waStep e st line) = waMessages st)
   \<and> (trim line = [] \<longrightarrow> waStep e st line = st)"
  by (simp add: waStep_def Let_def)

text \<open>
  The amended C5 at the line \<open>more text\<close> with two spaces on either side, and at a line of
  three spaces, after the message \<open>hello\<close>.
\<close>

theorem continuation_line_appended_witness:
  "trim ''  more text  '' \<noteq> []
   \<and> firstPattern patterns (trim ''  more text  '') = None
   \<and> waStep utc helloState ''  more text  ''
       = \<lparr>waMessages = [],
          currentMessage = Some \<lparr>timestamp = 1704103200000, sender = ''Alice'',
                                 msgText = ''hello'' @ [newline] @ ''more text''\<rparr>\<rparr>
   \<and> trim ''   '' = []
   \<and> waStep utc helloState ''   '' = helloState"
proof -
  have cur: "currentMessage helloState
             = Some \<lparr>timestamp = 1704103200000, sender = ''Alice'', msgText = ''hello''\<rparr>"
    by (simp add: helloState_def)
  have ne: "trim ''  more text  '' \<noteq> []" by (simp add: trim_more)
  have nomatch: "firstPattern patterns (trim ''  more text  '') = None"
    by (simp only: trim_more no_pattern_more)
  from continuation_line_appended
         [of "''  more text  ''" helloState
             "\<lparr>timestamp = 1704103200000, sender = ''Alice'', msgText = ''hello''\<rparr>" utc]
       ne nomatch cur
  have 1: "waStep utc helloState ''  more text  ''
       = helloState\<lparr>currentMessage := Some \<lparr>timestamp = 1704103200000, sender = ''Alice'',
                                 msgText = ''hello'' @ [newline] @ trim ''  more text  ''\<rparr>\<rparr>"
    by simp
  from continuation_line_appended [of "''   ''" helloState _ utc] trim_blank
  have 2: "waStep utc helloState ''   '' = helloState" by blast
  from 1 2 ne nomatch trim_blank show ?thesis
    by (simp add: helloState_def trim_more)
qed

text \<open>
  Claim C5 speaks of every non-empty line that matches no pattern and says that the line is
  appended. A line of three spaces is non-empty and matches no pattern, yet the state, and
  with it the text of the current message, stays as it was; and for a line with spaces
  around \<open>more text\<close> the text grows by the trimmed line, not by the line.
\<close>

theorem continuation_line_counterexample:
  "''   '' \<noteq> []
   \<and> firstPattern patterns ''   '' = None
   \<and> currentMessage helloState
       = Some \<lparr>timestamp = 1704103200000, sender = ''Alice'', msgText = ''hello''\<rparr>
   \<and> waStep utc helloState ''   '' = helloState
   \<and> firstPattern patterns ''  more text  '' = None
   \<and> map_option msgText (currentMessage (waStep utc helloState ''  more text  ''))
       = Some (''hello'' @ [newline] @ ''more text'')"
  by (simp add: no_pattern_blank no_pattern_padded waStep_def Let_def trim_blank trim_more
        no_pattern_more helloState_def)

section \<open>Properties of the parsers\<close>

lemma detect_emptyHistory: "detectFileType emptyHistoryHtml ''messages.html'' = TelegramFile"
  by code_simp

lemma parse_emptyHistory:
  "parseTelegramExport e np emptyHistoryDoc
     = Inr \<lparr>tgMessages = Some [],
            tgMeta = Some \<lparr>totalMessages = 0, participants = Some [],
                           chatName = Some ''Telegram Chat'', dateRange = None\<rparr>\<rparr>"
  by code_simp

lemma parse_unsorted:
  "parseTelegramExport utc np unsortedDoc
     = Inr \<lparr>tgMessages =
              Some [\<lparr>timestamp = 1754179200000, sender = ''Ann'', msgText = ''see you'',
                      extractedDate = None\<rparr>,
                    \<lparr>timestamp = 1754006400000, sender = ''Bob'', msgText = ''hello'',
                      extractedDate = None\<rparr>],
            tgMeta = Some \<lparr>totalMessages = 2, participants = Some [''Ann'', ''Bob''],
                           chatName = None,
                           dateRange = Some (1754179200000, 1754006400000)\<rparr>\<rparr>"
  by code_simp

text \<open>What holds for the parsers that sort and that reject an empty message list:
  \<open>parseWhatsApp\<close>, \<open>parseCSV\<close> and the main path of \<open>parseTelegramExport\<close>.\<close>

lemma parseWhatsApp_cases:
  "parseWhatsApp e content =
     (if waCollected e content = [] then Inl NoWhatsAppMessages
      else Inr \<lparr>resMessages = sort_key timestamp (waCollected e content),
                resMetadata =
                  \<lparr>metaTotalMessages = length (waCollected e content),
                   metaParticipants = newSet (map sender (sort_key timestamp (waCollected e content))),
                   metaStart = minOf (map timestamp (sort_key timestamp (waCollected e content))),
                   metaEnd = maxOf (map timestamp (sort_key timestamp (waCollected e content)))\<rparr>\<rparr>)"
  by (simp add: parseWhatsApp_def waCollected_def Let_def)

lemma parseWhatsApp_sorted_stable:
  assumes "parseWhatsApp e content = Inr r"
  shows "sorted (map timestamp (resMessages r))"
    and "filter (\<lambda>m. timestamp m = k) (resMessages r)
         = filter (\<lambda>m. timestamp m = k) (waCollected e content)"
    and "resMessages r \<noteq> []"
proof -
  from assms have r: "resMessages r = sort_key timestamp (waCollected e content)"
    and ne: "waCollected e content \<noteq> []"
    by (auto simp: parseWhatsApp_cases split: if_splits)
  show "sorted (map timestamp (resMessages r))" by (simp add: r)
  show "filter (\<lambda>m. timestamp m = k) (resMessages r)
         = filter (\<lambda>m. timestamp m = k) (waCollected e content)"
    unfolding r by (rule sort_key_stable)
  from ne have "length (sort_key timestamp (waCollected e content)) \<noteq> 0" by simp
  then show "resMessages r \<noteq> []" unfolding r by (metis list.size(3))
qed

lemma parseWhatsApp_error:
  "parseWhatsApp e content = Inl err \<Longrightarrow> err = NoWhatsAppMessages \<and> err \<noteq> UnsupportedFormat"
  by (auto simp: parseWhatsApp_cases split: if_splits)

lemma csvSort_valid:
  "list_all (\<lambda>m. isValidDate (csvTimestamp m)) ms \<Longrightarrow>
   sorted (map (\<lambda>m. timeValue (csvTimestamp m)) (csvSort es ms))
   \<and> filter (\<lambda>m. timeValue (csvTimestamp m) = k) (csvSort es ms)
       = filter (\<lambda>m. timeValue (csvTimestamp m) = k) ms"
  by (simp add: csvSort_def sort_key_stable)

lemma parseCSV_result:
  assumes "parseCSV np es content = Inr r"
  shows "\<exists>collected. collected \<noteq> [] \<and> csvMessages r = csvSort es collected"
proof -
  let ?lines = "filter (\<lambda>line. trim line \<noteq> []) (splitOn newline content)"
  let ?cm = "mapColumns (parseCSVLine (hd ?lines))"
  from assms obtain ts sn ms where
    cols: "colTimestamp ?cm = Some ts" "colSender ?cm = Some sn" "colMessage ?cm = Some ms"
    by (cases "colTimestamp ?cm"; cases "colSender ?cm"; cases "colMessage ?cm")
       (simp_all add: parseCSV_def Let_def split: if_splits)
  let ?collected = "concat (map (csvRow np ts sn ms) (tl ?lines))"
  from assms cols have "?collected \<noteq> [] \<and> csvMessages r = csvSort es ?collected"
    by (auto simp: parseCSV_def Let_def split: if_splits)
  then show ?thesis by blast
qed

lemma parseCSV_never_empty:
  assumes "parseCSV np es content = Inr r" "\<And>ms. length (es ms) = length ms"
  shows "csvMessages r \<noteq> []"
proof -
  from parseCSV_result [OF assms(1)] obtain collected where
    c: "collected \<noteq> []" "csvMessages r = csvSort es collected" by blast
  have "length (csvSort es collected) = length collected"
    by (simp add: csvSort_def assms(2))
  with c show ?thesis by (metis length_0_conv)
qed

lemma parseCSV_error:
  "parseCSV np es content = Inl err \<Longrightarrow> err \<noteq> UnsupportedFormat"
  by (auto simp: parseCSV_def Let_def split: if_splits option.splits)

lemma parseTelegram_main_sorted:
  assumes "docQuerySelector doc selHistory = Some h" "parseTelegramExport e np doc = Inr r"
  shows "sorted (map timestamp (mergedMessages r))"
  using assms by (auto simp: parseTelegramExport_def Let_def mergedMessages_def)


lemma parseTimestamp_keeps_invalid:
  assumes "np ''2024-13-45 10:00:00'' = None"
  shows "parseTimestamp np ''2024-13-45 10:00:00'' = Some InvalidDate"
proof -
  have "regexMatch (hd timestampFormats) False ''2024-13-45 10:00:00'' \<noteq> None"
    by code_simp
  then have "list_ex (\<lambda>format. regexMatch format False ''2024-13-45 10:00:00'' \<noteq> None) timestampFormats"
    by (simp add: timestampFormats_def)
  with assms show ?thesis
    by (simp add: parseTimestamp_def newDateOf_def)
qed

text \<open>
  Claim C1 says that the messages of every parser's result are sorted by timestamp. The
  fallback path of \<open>parseTelegramExport\<close> (\<open>parseAlternativeFormat\<close>, taken when the document
  has no history container) returns the messages in document order and never sorts them:
  for the document with the header of 3 August before the header of 1 August, the
  timestamps of the result decrease.
\<close>

theorem telegram_fallback_not_sorted:
  "parseTelegramExport utc np unsortedDoc
     = Inr \<lparr>tgMessages =
              Some [\<lparr>timestamp = 1754179200000, sender = ''Ann'', msgText = ''see you'',
                      extractedDate = None\<rparr>,
                    \<lparr>timestamp = 1754006400000, sender = ''Bob'', msgText = ''hello'',
                      extractedDate = None\<rparr>],
            tgMeta = Some \<lparr>totalMessages = 2, participants = Some [''Ann'', ''Bob''],
                           chatName = None,
                           dateRange = Some (1754179200000, 1754006400000)\<rparr>\<rparr>
   \<and> \<not> sorted [1754179200000, 1754006400000 :: int]"
  by (simp add: parse_unsorted)

text \<open>
  Claim C3 says that a parser that recognises the format but extracts no message fails with
  a zero-messages error. \<open>parseTelegramExport\<close> has no such check: the HTML file with an
  empty history container is recognised as a Telegram export, and the parser, also when
  reached through \<open>parseFile\<close>, returns a result with an empty message list.
\<close>

theorem telegram_returns_empty_result:
  "detectFileType emptyHistoryHtml ''messages.html'' = TelegramFile
   \<and> parseTelegramExport e np emptyHistoryDoc
       = Inr \<lparr>tgMessages = Some [],
              tgMeta = Some \<lparr>totalMessages = 0, participants = Some [],
                             chatName = Some ''Telegram Chat'', dateRange = None\<rparr>\<rparr>
   \<and> map_sum id resultCount
         (parseFile e (eng\<lparr>parseHtml := (\<lambda>content. emptyHistoryDoc)\<rparr>) emptyHistoryHtml
            ''messages.html'')
       = Inr 0"
  by (simp add: detect_emptyHistory parse_emptyHistory parseFile_def resultCount_def
        mergedMessages_def)

end
